theory Spec2Isabelle
  imports Complex_Main "HOL-Library.Product_Lexorder" "HOL-Library.Multiset"
begin

section \<open>Python values\<close>

text \<open>
  Python and NumPy floats are modelled as real numbers extended by \<open>NaN\<close>: rounding is
  idealised away, but the one non-finite value the modelled code can produce (a vector of
  norm zero divided by its norm, \<open>0/0\<close>) is kept, because it changes what is stored.
  Arithmetic propagates \<open>NaN\<close>; every comparison with \<open>NaN\<close> is false.
\<close>

datatype pyfloat = Fin real | NaN

fun fl_add :: "pyfloat \<Rightarrow> pyfloat \<Rightarrow> pyfloat" where
  "fl_add (Fin x) (Fin y) = Fin (x + y)"
| "fl_add _ _ = NaN"

fun fl_mul :: "pyfloat \<Rightarrow> pyfloat \<Rightarrow> pyfloat" where
  "fl_mul (Fin x) (Fin y) = Fin (x * y)"
| "fl_mul _ _ = NaN"

fun fl_ge :: "pyfloat \<Rightarrow> pyfloat \<Rightarrow> bool" where
  "fl_ge (Fin x) (Fin y) = (y \<le> x)"
| "fl_ge _ _ = False"

text \<open>The exceptions that leave the modelled functions.\<close>

datatype py_error = AttributeError | TypeError | AssertionError

text \<open>
  What \<open>json.loads\<close> returns. An object is the list of the items of the resulting
  dictionary, looked up with \<open>map_of\<close>.
\<close>

datatype json =
    JNull
  | JBool bool
  | JNum real
  | JStr string
  | JArr "json list"
  | JObj "(string \<times> json) list"

section \<open>EmbeddingService (utils/embedding_utils.py)\<close>

type_synonym vec = "real list"

text \<open>\<open>np.linalg.norm\<close> of a one-dimensional array.\<close>

definition linalg_norm :: "vec \<Rightarrow> real" where
  "linalg_norm v = sqrt (sum_list (map (\<lambda>x. x * x) v))"

text \<open>
  \<open>v / n\<close> for an array and a scalar. The scalar is the norm of \<open>v\<close>, so it is zero only
  when every component is zero, and then every quotient is \<open>0/0 = nan\<close> (NumPy warns and
  does not raise).
\<close>

definition np_divide :: "vec \<Rightarrow> real \<Rightarrow> pyfloat list" where
  "np_divide v n = (if n = 0 then map (\<lambda>x. NaN) v else map (\<lambda>x. Fin (x / n)) v)"

text \<open>
  \<open>np.dot\<close> of two one-dimensional arrays. Both arguments come from the same encoder and
  have its dimension, so the shape error of NumPy for unequal lengths cannot occur.
\<close>

definition np_dot :: "pyfloat list \<Rightarrow> pyfloat list \<Rightarrow> pyfloat" where
  "np_dot a b = foldl fl_add (Fin 0) (map (\<lambda>(x, y). fl_mul x y) (zip a b))"

text \<open>
  \<open>calculate_similarity\<close>; the sentence encoder \<open>self.model.encode\<close> is the parameter
  \<open>encode\<close>.
\<close>

definition calculate_similarity :: "(string \<Rightarrow> vec) \<Rightarrow> string \<Rightarrow> string \<Rightarrow> pyfloat" where
  "calculate_similarity encode jd_text resume_text =
     (let jd_embedding = encode jd_text;
          resume_embedding = encode resume_text;
          jd_normed = np_divide jd_embedding (linalg_norm jd_embedding);
          resume_normed = np_divide resume_embedding (linalg_norm resume_embedding);
          similarity = np_dot jd_normed resume_normed
      in similarity)"

text \<open>
  The specification's semantic score, for comparison: the cosine of the two embeddings,
  clamped to the unit interval.
\<close>

definition dot :: "vec \<Rightarrow> vec \<Rightarrow> real" where
  "dot a b = sum_list (map (\<lambda>(x, y). x * y) (zip a b))"

definition cosine :: "vec \<Rightarrow> vec \<Rightarrow> real" where
  "cosine a b = dot a b / (linalg_norm a * linalg_norm b)"

definition spec_semantic_score :: "vec \<Rightarrow> vec \<Rightarrow> real" where
  "spec_semantic_score a b = max 0 (min 1 (cosine a b))"


subsection \<open>The two vector collections\<close>

text \<open>\<open>str\<close> of a non-negative integer, the key of a metadata entry.\<close>

definition digit_char :: "nat \<Rightarrow> char" where
  "digit_char d = ''0123456789'' ! d"

fun str_nat :: "nat \<Rightarrow> string" where
  "str_nat n = (if n < 10 then [digit_char n] else str_nat (n div 10) @ [digit_char (n mod 10)])"

declare str_nat.simps [simp del]

text \<open>
  A metadata entry \<open>{"jd_id": ..., "metadata": ...}\<close> (or \<open>"resume_id"\<close>); the attribute
  bag is any type \<open>'m\<close>.
\<close>

record 'm meta_entry =
  ext_id :: string
  metadata :: 'm

text \<open>
  The state of an \<open>EmbeddingService\<close>: a flat index is the list of its vectors in
  insertion order (\<open>ntotal\<close> is its length), a metadata dictionary is a map from
  \<open>str(index_id)\<close>; the four files hold what was last written to them.
\<close>

record 'm embedding_service =
  jd_index :: "vec list"
  resume_index :: "vec list"
  jd_metadata :: "string \<rightharpoonup> 'm meta_entry"
  resume_metadata :: "string \<rightharpoonup> 'm meta_entry"
  jd_index_file :: "vec list"
  resume_index_file :: "vec list"
  jd_metadata_file :: "string \<rightharpoonup> 'm meta_entry"
  resume_metadata_file :: "string \<rightharpoonup> 'm meta_entry"

definition add_jd_embedding ::
  "(string \<Rightarrow> vec) \<Rightarrow> 'm embedding_service \<Rightarrow> string \<Rightarrow> string \<Rightarrow> 'm
     \<Rightarrow> nat \<times> 'm embedding_service" where
  "add_jd_embedding encode st jd_id text md =
     (let embedding = encode text;
          index_id = length (jd_index st);
          index' = jd_index st @ [embedding];
          metadata' = (jd_metadata st)(str_nat index_id \<mapsto> \<lparr>ext_id = jd_id, metadata = md\<rparr>)
      in (index_id,
          st\<lparr>jd_index := index', jd_metadata := metadata',
             jd_metadata_file := metadata', jd_index_file := index'\<rparr>))"

definition add_resume_embedding ::
  "(string \<Rightarrow> vec) \<Rightarrow> 'm embedding_service \<Rightarrow> string \<Rightarrow> string \<Rightarrow> 'm
     \<Rightarrow> nat \<times> 'm embedding_service" where
  "add_resume_embedding encode st resume_id text md =
     (let embedding = encode text;
          index_id = length (resume_index st);
          index' = resume_index st @ [embedding];
          metadata' =
            (resume_metadata st)(str_nat index_id \<mapsto> \<lparr>ext_id = resume_id, metadata = md\<rparr>)
      in (index_id,
          st\<lparr>resume_index := index', resume_metadata := metadata',
             resume_metadata_file := metadata', resume_index_file := index'\<rparr>))"

text \<open>
  \<open>faiss.IndexFlatL2.search\<close> for one query, a library function taken with its contract:
  the Python wrapper asserts \<open>k > 0\<close>; the search is exhaustive and returns the \<open>k\<close>
  smallest squared Euclidean distances in ascending order, equal distances by ascending
  id, and pads with id \<open>-1\<close> when the index holds fewer than \<open>k\<close> vectors.
\<close>

definition l2sqr :: "vec \<Rightarrow> vec \<Rightarrow> real" where
  "l2sqr q v = sum_list (map (\<lambda>(x, y). (x - y) * (x - y)) (zip q v))"

definition flt_max :: real where
  "flt_max = (2 - 1 / 2 ^ 23) * 2 ^ 127"

definition faiss_search :: "vec list \<Rightarrow> vec \<Rightarrow> int \<Rightarrow> py_error + (real list \<times> int list)" where
  "faiss_search index q k =
     (if k \<le> 0 then Inl AssertionError
      else
        let scored = sort (map (\<lambda>(i, v). (l2sqr q v, i)) (enumerate 0 index));
            top = take (nat k) scored;
            pad = nat k - length top
        in Inr (map fst top @ replicate pad flt_max,
                map (\<lambda>(d, i). int i) top @ replicate pad (- 1)))"

text \<open>
  One result dictionary of a search. \<open>metadata.get("metadata", {})\<close> is \<open>None\<close> when the
  default is taken.
\<close>

record 'm search_result =
  index_id :: int
  res_ext_id :: string
  res_metadata :: "'m option"
  similarity :: real

definition search_results ::
  "(string \<rightharpoonup> 'm meta_entry) \<Rightarrow> real list \<Rightarrow> int list \<Rightarrow> 'm search_result list" where
  "search_results meta distances indices =
     map (\<lambda>(d, idx).
            (let entry = meta (str_nat (nat idx))
             in \<lparr>index_id = idx,
                 res_ext_id = (case entry of None \<Rightarrow> [] | Some e \<Rightarrow> ext_id e),
                 res_metadata = map_option metadata entry,
                 similarity = 1 - d\<rparr>))
         (filter (\<lambda>(d, idx). idx \<noteq> - 1) (zip distances indices))"

definition search_similar_jds ::
  "(string \<Rightarrow> vec) \<Rightarrow> 'm embedding_service \<Rightarrow> string \<Rightarrow> int \<Rightarrow> py_error + 'm search_result list" where
  "search_similar_jds encode st text k =
     (let embedding = encode text
      in if length (jd_index st) = 0 then Inr []
         else case faiss_search (jd_index st) embedding (min k (int (length (jd_index st)))) of
                Inl e \<Rightarrow> Inl e
              | Inr (distances, indices) \<Rightarrow> Inr (search_results (jd_metadata st) distances indices))"

definition search_similar_resumes ::
  "(string \<Rightarrow> vec) \<Rightarrow> 'm embedding_service \<Rightarrow> string \<Rightarrow> int \<Rightarrow> py_error + 'm search_result list" where
  "search_similar_resumes encode st text k =
     (let embedding = encode text
      in if length (resume_index st) = 0 then Inr []
         else case faiss_search (resume_index st) embedding
                     (min k (int (length (resume_index st)))) of
                Inl e \<Rightarrow> Inl e
              | Inr (distances, indices) \<Rightarrow>
                  Inr (search_results (resume_metadata st) distances indices))"


text \<open>
  The order of a search result, for stating what a search returns: \<open>rs\<close> has
  \<open>min(k, ntotal)\<close> records, their distances \<open>1 - similarity\<close> never decrease, records at
  the same distance come by ascending ordinal, and each record carries the squared
  Euclidean distance of the vector stored under its ordinal.
\<close>

definition nearest_ordered :: "vec list \<Rightarrow> vec \<Rightarrow> int \<Rightarrow> 'm search_result list \<Rightarrow> bool" where
  "nearest_ordered index q k rs \<longleftrightarrow>
     length rs = min (nat k) (length index)
     \<and> sorted_wrt (\<lambda>a b. 1 - similarity a < 1 - similarity b
                        \<or> 1 - similarity a = 1 - similarity b \<and> index_id a < index_id b) rs
     \<and> (\<forall>r \<in> set rs. 0 \<le> index_id r \<and> index_id r < int (length index)
            \<and> 1 - similarity r = l2sqr q (index ! nat (index_id r)))"

section \<open>Shortlister (agents/shortlister.py)\<close>

subsection \<open>The database (db/init_db.py)\<close>

text \<open>
  A row of \<open>job_descriptions\<close> and of \<open>resumes\<close> as \<open>get_job_description\<close> and \<open>get_resume\<close>
  return it, with the JSON columns decoded to what the ingestion agents stored there
  (lists of strings, lists of objects with string entries; an absent entry is the empty
  string that \<open>get\<close> defaults to). Only the columns the shortlister reads are kept.
\<close>

record job_description =
  jd_job_title :: string
  jd_company :: string
  jd_experience_required :: string
  jd_qualification :: string
  jd_skills :: "string list"
  jd_description :: string

datatype responsibilities = RespList "string list" | RespText string

record experience_entry =
  exp_company :: string
  exp_position :: string
  exp_dates :: string
  exp_responsibilities :: responsibilities

record education_entry =
  edu_institution :: string
  edu_degree :: string
  edu_dates :: string

record resume =
  cv_name :: string
  cv_skills :: "string list"
  cv_experience :: "experience_entry list"
  cv_education :: "education_entry list"

text \<open>
  A row of \<open>rankings\<close>. \<open>match_score\<close> is \<open>FLOAT NOT NULL\<close>, \<open>rank\<close> is a nullable integer.
  The table is the list of its rows in rowid order; \<open>id\<close> and \<open>created_at\<close> are never read
  and are left out.
\<close>

record ranking =
  resume_id :: string
  job_id :: string
  match_score :: real
  rank :: "nat option"
  shortlisted :: bool

record database =
  job_descriptions :: "string \<rightharpoonup> job_description"
  resumes :: "string \<rightharpoonup> resume"
  rankings :: "ranking list"

text \<open>
  \<open>get_job_description\<close> and \<open>get_resume\<close>: the empty dictionary \<open>{}\<close>, which is what they
  return for a missing row and for any exception, is \<open>None\<close>.
\<close>

definition get_job_description :: "database \<Rightarrow> string \<Rightarrow> job_description option" where
  "get_job_description db j = job_descriptions db j"

definition get_resume :: "database \<Rightarrow> string \<Rightarrow> resume option" where
  "get_resume db r = resumes db r"

subsection \<open>Text rendering\<close>

definition nl :: string where
  "nl = [CHR 0x0A]"

fun join :: "string \<Rightarrow> string list \<Rightarrow> string" where
  "join sep [] = []"
| "join sep [x] = x"
| "join sep (x # y # ys) = x @ sep @ join sep (y # ys)"

text \<open>The f-string for a job description; \<open>ind\<close> is the indentation of the source lines.\<close>

definition jd_text_of :: "string \<Rightarrow> job_description \<Rightarrow> string" where
  "jd_text_of ind jd =
     nl @ ind @ ''Job Title: '' @ jd_job_title jd
     @ nl @ ind @ ''Company: '' @ jd_company jd
     @ nl @ ind @ ''Experience Required: '' @ jd_experience_required jd
     @ nl @ ind @ ''Qualification: '' @ jd_qualification jd
     @ nl @ ind @ ''Skills: '' @ join '', '' (jd_skills jd)
     @ nl @ ind @ ''Description: '' @ jd_description jd
     @ nl @ ind"

definition education_text_of :: "education_entry list \<Rightarrow> string" where
  "education_text_of edus =
     concat (map (\<lambda>edu. edu_institution edu @ '', '' @ edu_degree edu @ '', '' @ edu_dates edu @ nl)
                 edus)"

definition resume_text_of :: "string \<Rightarrow> resume \<Rightarrow> string \<Rightarrow> string" where
  "resume_text_of ind cv experience_text =
     nl @ ind @ ''Name: '' @ cv_name cv
     @ nl @ ind @ ''Skills: '' @ join '', '' (cv_skills cv)
     @ nl @ ind @ ''Experience: '' @ experience_text
     @ nl @ ind @ ''Education: '' @ education_text_of (cv_education cv)
     @ nl @ ind"

text \<open>The experience lines of \<open>evaluate_semantic_similarity\<close>.\<close>

definition semantic_experience_text :: "experience_entry list \<Rightarrow> string" where
  "semantic_experience_text exps =
     concat (map (\<lambda>exp. exp_company exp @ '', '' @ exp_position exp @ '', '' @ exp_dates exp @ nl)
                 exps)"

text \<open>The experience paragraphs of \<open>evaluate_detailed_match\<close>, with the responsibilities.\<close>

definition detailed_experience_text :: "experience_entry list \<Rightarrow> string" where
  "detailed_experience_text exps =
     concat (map (\<lambda>exp.
                   (let resp_text = (case exp_responsibilities exp of
                                       RespList rs \<Rightarrow> join nl rs
                                     | RespText t \<Rightarrow> t)
                    in exp_company exp @ '', '' @ exp_position exp @ '', '' @ exp_dates exp
                       @ nl @ resp_text @ nl @ nl))
                 exps)"

subsection \<open>The two evaluations\<close>

text \<open>
  What the shortlister calls outside this repository: the sentence encoder, the LLM chain
  (\<open>has_chain\<close> is \<open>hasattr(self, 'chain')\<close>, false when no API key was set) and
  \<open>json.loads\<close> (\<open>None\<close> is \<open>JSONDecodeError\<close>). \<open>chain.invoke\<close> either raises, a timeout
  included, or returns a response whose \<open>'text'\<close> entry may be absent.
\<close>

datatype invoke_result = InvokeRaises | Response "string option"

record env =
  encode :: "string \<Rightarrow> vec"
  has_chain :: bool
  chain_invoke :: "string \<Rightarrow> string \<Rightarrow> invoke_result"
  json_loads :: "string \<rightharpoonup> json"

definition evaluate_semantic_similarity :: "env \<Rightarrow> database \<Rightarrow> string \<Rightarrow> string \<Rightarrow> pyfloat" where
  "evaluate_semantic_similarity e db j r =
     (case (get_job_description db j, get_resume db r) of
        (Some jd, Some cv) \<Rightarrow>
          calculate_similarity (encode e)
            (jd_text_of (replicate 8 CHR '' '') jd)
            (resume_text_of (replicate 8 CHR '' '') cv (semantic_experience_text (cv_experience cv)))
      | _ \<Rightarrow> Fin 0)"

definition zero_match :: json where
  "zero_match = JObj [(''overall_score'', JNum 0)]"

definition evaluate_detailed_match :: "env \<Rightarrow> database \<Rightarrow> string \<Rightarrow> string \<Rightarrow> json" where
  "evaluate_detailed_match e db j r =
     (if \<not> has_chain e then zero_match
      else case (get_job_description db j, get_resume db r) of
        (Some jd, Some cv) \<Rightarrow>
          (case chain_invoke e
                  (jd_text_of (replicate 12 CHR '' '') jd)
                  (resume_text_of (replicate 12 CHR '' '') cv
                     (detailed_experience_text (cv_experience cv))) of
             InvokeRaises \<Rightarrow> zero_match
           | Response text \<Rightarrow>
               (case json_loads e (case text of None \<Rightarrow> ''{}'' | Some t \<Rightarrow> t) of
                  None \<Rightarrow> zero_match
                | Some result \<Rightarrow> result))
      | _ \<Rightarrow> zero_match)"

subsection \<open>Writing the ranking\<close>

text \<open>
  \<open>INSERT OR REPLACE\<close> under \<open>UNIQUE(resume_id, job_id)\<close>: the rows with the same pair are
  deleted and the new row, with a fresh rowid and no rank, is appended.
\<close>

definition insert_or_replace :: "ranking list \<Rightarrow> string \<Rightarrow> string \<Rightarrow> real \<Rightarrow> bool \<Rightarrow> ranking list" where
  "insert_or_replace T r j score flag =
     filter (\<lambda>row. \<not> (resume_id row = r \<and> job_id row = j)) T
     @ [\<lparr>resume_id = r, job_id = j, match_score = score, rank = None, shortlisted = flag\<rparr>]"

text \<open>
  \<open>SELECT resume_id, match_score ... WHERE job_id = ? ORDER BY match_score DESC\<close>. SQL
  leaves the order of rows with equal scores open; SQLite scans in rowid order and sorts
  stably, which is what \<open>sort_key\<close> does.
\<close>

definition select_rankings :: "ranking list \<Rightarrow> string \<Rightarrow> (string \<times> real) list" where
  "select_rankings T j =
     map (\<lambda>row. (resume_id row, match_score row))
         (sort_key (\<lambda>row. - match_score row) (filter (\<lambda>row. job_id row = j) T))"

text \<open>\<open>UPDATE rankings SET rank = ? WHERE resume_id = ? AND job_id = ?\<close>.\<close>

definition update_rank :: "ranking list \<Rightarrow> nat \<Rightarrow> string \<Rightarrow> string \<Rightarrow> ranking list" where
  "update_rank T n r j =
     map (\<lambda>row. if resume_id row = r \<and> job_id row = j then row\<lparr>rank := Some n\<rparr> else row) T"

text \<open>
  A failing database is the parameter \<open>fault\<close>: \<open>Some n\<close> makes statement number \<open>n\<close> of
  the \<open>try\<close> block raise (0 is \<open>connect\<close>, 1 the insert, 2 the select, then one update per
  selected row, then \<open>commit\<close>); \<open>None\<close> lets all of them succeed. The loop over
  \<open>enumerate(rankings, 1)\<close> returns \<open>None\<close> when an update raised.
\<close>

fun update_ranks ::
  "nat option \<Rightarrow> nat \<Rightarrow> nat \<Rightarrow> (string \<times> real) list \<Rightarrow> string \<Rightarrow> ranking list
     \<Rightarrow> ranking list option" where
  "update_ranks fault stmt n [] j W = Some W"
| "update_ranks fault stmt n ((r_id, score) # rest) j W =
     (if fault = Some stmt then None
      else update_ranks fault (Suc stmt) (Suc n) rest j (update_rank W n r_id j))"

text \<open>
  The \<open>try\<close> block of \<open>shortlist_candidate\<close>, from the committed table to the committed
  table. The statements run in one implicit transaction: when one of them raises, the
  handler only prints, the connection is dropped without \<open>commit\<close> and SQLite rolls the
  transaction back, so the table is the old one. A \<open>nan\<close> score is bound as \<open>NULL\<close> and
  violates \<open>NOT NULL\<close>, so the insert raises.
\<close>

definition store_ranking ::
  "nat option \<Rightarrow> ranking list \<Rightarrow> string \<Rightarrow> string \<Rightarrow> pyfloat \<Rightarrow> bool \<Rightarrow> ranking list" where
  "store_ranking fault T r j score flag =
     (if fault = Some 0 then T
      else case score of
        NaN \<Rightarrow> T
      | Fin x \<Rightarrow>
          if fault = Some 1 then T
          else
            let W = insert_or_replace T r j x flag
            in if fault = Some 2 then T
               else
                 let rows = select_rankings W j
                 in (case update_ranks fault 3 1 rows j W of
                       None \<Rightarrow> T
                     | Some W' \<Rightarrow> (if fault = Some (3 + length rows) then T else W')))"

subsection \<open>shortlist_candidate\<close>

definition shortlist_threshold :: real where
  "shortlist_threshold = 0.8"

text \<open>\<open>detailed_match.get("overall_score", 0.0)\<close>: only a dictionary has \<open>get\<close>.\<close>

definition get_overall_score :: "json \<Rightarrow> py_error + json" where
  "get_overall_score detailed_match =
     (case detailed_match of
        JObj items \<Rightarrow>
          Inr (case map_of items ''overall_score'' of None \<Rightarrow> JNum 0 | Some v \<Rightarrow> v)
      | _ \<Rightarrow> Inl AttributeError)"

text \<open>\<open>v / 100.0\<close>: defined for numbers, and for booleans as the numbers 1 and 0.\<close>

definition div_100 :: "json \<Rightarrow> py_error + pyfloat" where
  "div_100 v =
     (case v of
        JNum x \<Rightarrow> Inr (Fin (x / 100))
      | JBool b \<Rightarrow> Inr (Fin ((if b then 1 else 0) / 100))
      | _ \<Rightarrow> Inl TypeError)"

text \<open>
  \<open>shortlist_candidate\<close> returns the pair \<open>(match_score, is_shortlisted)\<close>, together with
  the database it leaves, or raises before the \<open>try\<close> block is reached.
\<close>

definition shortlist_candidate ::
  "env \<Rightarrow> nat option \<Rightarrow> database \<Rightarrow> string \<Rightarrow> string
     \<Rightarrow> py_error + ((pyfloat \<times> bool) \<times> database)" where
  "shortlist_candidate e fault db j r =
     (let semantic_score = evaluate_semantic_similarity e db j r;
          detailed_match = evaluate_detailed_match e db j r
      in case get_overall_score detailed_match of
           Inl err \<Rightarrow> Inl err
         | Inr v \<Rightarrow>
             (case div_100 v of
                Inl err \<Rightarrow> Inl err
              | Inr llm_score \<Rightarrow>
                  (let combined_score =
                         fl_add (fl_mul (Fin 0.6) semantic_score) (fl_mul (Fin 0.4) llm_score);
                       match_score = fl_mul combined_score (Fin 100);
                       is_shortlisted = fl_ge match_score (Fin (shortlist_threshold * 100))
                   in Inr ((match_score, is_shortlisted),
                           db\<lparr>rankings :=
                                store_ranking fault (rankings db) r j match_score is_shortlisted\<rparr>))))"


section \<open>Concrete inputs\<close>

text \<open>An encoder with two-dimensional embeddings, used to evaluate the model.\<close>

definition enc0 :: "string \<Rightarrow> vec" where
  "enc0 t = (if t = ''jd'' then [3, 4]
             else if t = ''cv'' then [4, 3]
             else if t = ''neg'' then [- 3, - 4]
             else [0, 0])"

text \<open>
  A service whose posting collection already holds the posting \<open>jd\<close> at ordinal 0, and
  one whose posting collection holds three vectors, two of them equal.
\<close>

definition svc1 :: "unit embedding_service" where
  "svc1 = \<lparr>jd_index = [[3, 4]], resume_index = [],
           jd_metadata = [''0'' \<mapsto> \<lparr>ext_id = ''jd'', metadata = ()\<rparr>],
           resume_metadata = Map.empty,
           jd_index_file = [[3, 4]], resume_index_file = [],
           jd_metadata_file = [''0'' \<mapsto> \<lparr>ext_id = ''jd'', metadata = ()\<rparr>],
           resume_metadata_file = Map.empty\<rparr>"

definition svc2 :: "unit embedding_service" where
  "svc2 = \<lparr>jd_index = [[1, 1], [0, 0], [1, 1]], resume_index = [],
           jd_metadata = [''1'' \<mapsto> \<lparr>ext_id = ''origin'', metadata = ()\<rparr>],
           resume_metadata = Map.empty,
           jd_index_file = [[1, 1], [0, 0], [1, 1]], resume_index_file = [],
           jd_metadata_file = [''1'' \<mapsto> \<lparr>ext_id = ''origin'', metadata = ()\<rparr>],
           resume_metadata_file = Map.empty\<rparr>"

text \<open>
  A posting and a profile, an encoder that tells their texts apart (only the text of a
  posting contains the letter J) and gives them the embeddings \<open>[3, 4]\<close> and \<open>[4, 3]\<close>,
  a JSON decoder that knows one text, and the surroundings built from them around a given
  answer of the chain.
\<close>

definition jd1 :: job_description where
  "jd1 = \<lparr>jd_job_title = ''Backend Engineer'', jd_company = ''Acme'',
          jd_experience_required = ''3 years'', jd_qualification = ''BSc'',
          jd_skills = [''python'', ''sql''], jd_description = ''Builds services''\<rparr>"

definition cv1 :: resume where
  "cv1 = \<lparr>cv_name = ''Ann Lee'', cv_skills = [''python''],
          cv_experience = [\<lparr>exp_company = ''Initech'', exp_position = ''Developer'',
                            exp_dates = ''2020-2023'', exp_responsibilities = RespList [''apis'']\<rparr>],
          cv_education = [\<lparr>edu_institution = ''MIT'', edu_degree = ''BSc'', edu_dates = ''2019''\<rparr>]\<rparr>"

definition enc1 :: "string \<Rightarrow> vec" where
  "enc1 t = (if CHR ''J'' \<in> set t then [3, 4] else [4, 3])"

definition loads0 :: "string \<rightharpoonup> json" where
  "loads0 t = (if t = ''ok'' then Some (JObj [(''overall_score'', JNum 90)]) else None)"

definition env_of :: "invoke_result \<Rightarrow> env" where
  "env_of answer = \<lparr>encode = enc1, has_chain = True, chain_invoke = (\<lambda>jd_text cv_text. answer),
                     json_loads = loads0\<rparr>"

text \<open>The database with posting \<open>J1\<close>, the profiles \<open>a\<close> and \<open>b\<close>, and a given rankings table.\<close>

definition db_with :: "ranking list \<Rightarrow> database" where
  "db_with T = \<lparr>job_descriptions = [''J1'' \<mapsto> jd1], resumes = [''a'' \<mapsto> cv1, ''b'' \<mapsto> cv1],
                rankings = T\<rparr>"

text \<open>
  Two surroundings: one whose judge answers with an overall score of 90, one whose judge
  call raises. Three states of the rankings table for posting \<open>J1\<close>: profile \<open>b\<close> scored;
  then profile \<open>a\<close> scored with the same score; then \<open>b\<close> scored again while the judge
  is down.
\<close>

definition env_ok :: env where
  "env_ok = env_of (Response (Some ''ok''))"

definition env_down :: env where
  "env_down = env_of InvokeRaises"

definition rows_b :: "ranking list" where
  "rows_b = [\<lparr>resume_id = ''b'', job_id = ''J1'', match_score = 468 / 5, rank = Some 1,
              shortlisted = True\<rparr>]"

definition rows_ba :: "ranking list" where
  "rows_ba = [\<lparr>resume_id = ''b'', job_id = ''J1'', match_score = 468 / 5, rank = Some 1,
               shortlisted = True\<rparr>,
              \<lparr>resume_id = ''a'', job_id = ''J1'', match_score = 468 / 5, rank = Some 2,
               shortlisted = True\<rparr>]"

definition rows_ab :: "ranking list" where
  "rows_ab = [\<lparr>resume_id = ''a'', job_id = ''J1'', match_score = 468 / 5, rank = Some 1,
               shortlisted = True\<rparr>,
              \<lparr>resume_id = ''b'', job_id = ''J1'', match_score = 288 / 5, rank = Some 2,
               shortlisted = False\<rparr>]"

text \<open>
  Surroundings whose judge replies with a given text, and a decoder for three replies:
  the JSON array \<open>[1, 2]\<close>, the JSON value \<open>null\<close>, and the JSON object whose
  \<open>overall_score\<close> is the string \<open>85\<close>. Every other text is not JSON.
\<close>

definition score_text :: string where
  "score_text = ''{'' @ [CHR 0x22] @ ''overall_score'' @ [CHR 0x22] @ '': ''
                @ [CHR 0x22] @ ''85'' @ [CHR 0x22] @ ''}''"

definition loads1 :: "string \<rightharpoonup> json" where
  "loads1 t = (if t = ''[1, 2]'' then Some (JArr [JNum 1, JNum 2])
               else if t = ''null'' then Some JNull
               else if t = score_text then Some (JObj [(''overall_score'', JStr ''85'')])
               else None)"

definition env_reply :: "string \<Rightarrow> env" where
  "env_reply t = \<lparr>encode = enc1, has_chain = True,
                   chain_invoke = (\<lambda>jd_text cv_text. Response (Some t)), json_loads = loads1\<rparr>"

section \<open>Notions used in the statements\<close>

text \<open>The key of a ranking row, the pair that \<open>UNIQUE(resume_id, job_id)\<close> constrains.\<close>

definition pair_key :: "ranking \<Rightarrow> string \<times> string" where
  "pair_key row = (resume_id row, job_id row)"

text \<open>
  The rank a row with resume id \<open>x\<close> and rank \<open>cur\<close> holds after the update loop has gone
  through the resume ids \<open>ys\<close>, counting from \<open>n\<close>.
\<close>

fun new_rank :: "nat \<Rightarrow> string list \<Rightarrow> string \<Rightarrow> nat option \<Rightarrow> nat option" where
  "new_rank n [] x cur = cur"
| "new_rank n (y # ys) x cur = new_rank (Suc n) ys x (if x = y then Some n else cur)"

text \<open>
  What the select and the update loop together do to a table when no statement fails:
  every row of posting \<open>j\<close> gets the rank the loop assigns to its resume id.
\<close>

definition rerank :: "ranking list \<Rightarrow> string \<Rightarrow> ranking list" where
  "rerank W j =
     map (\<lambda>row. if job_id row = j
                 then row\<lparr>rank := new_rank 1 (map fst (select_rankings W j)) (resume_id row) (rank row)\<rparr>
                 else row) W"

text \<open>
  A run of scoring requests, each with its own surroundings and database fault. A request
  that raises leaves the database as it was: every exception that leaves
  \<open>shortlist_candidate\<close> is raised before the database is opened.
\<close>

fun shortlist_all :: "database \<Rightarrow> (env \<times> nat option \<times> string \<times> string) list \<Rightarrow> database" where
  "shortlist_all db [] = db"
| "shortlist_all db ((e, fault, j, r) # calls) =
     (case shortlist_candidate e fault db j r of
        Inl err \<Rightarrow> shortlist_all db calls
      | Inr (res, db') \<Rightarrow> shortlist_all db' calls)"

section \<open>Properties of the embedding service\<close>

subsection \<open>calculate_similarity\<close>

lemma foldl_fl_add_Fin:
  "foldl fl_add (Fin acc)
     (map (\<lambda>(x, y). fl_mul x y) (zip (map (\<lambda>x. Fin (f x)) a) (map (\<lambda>y. Fin (g y)) b)))
   = Fin (acc + sum_list (map (\<lambda>(x, y). f x * g y) (zip a b)))"
proof (induction a arbitrary: acc b)
  case Nil
  then show ?case by simp
next
  case (Cons x a)
  then show ?case by (cases b) (simp_all add: add.assoc)
qed

lemma sum_list_scaled:
  "sum_list (map (\<lambda>(x, y). x * y / c) (zip a b))
   = sum_list (map (\<lambda>(x, y). x * y) (zip a b)) / (c::real)"
proof (induction a arbitrary: b)
  case Nil
  then show ?case by simp
next
  case (Cons x a)
  then show ?case by (cases b) (simp_all add: add_divide_distrib)
qed

text \<open>
  C4, as the code has it: for embeddings of non-zero norm, \<open>calculate_similarity\<close> returns
  exactly the cosine \<open>dot(a,b) / (norm(a) * norm(b))\<close> of the two embeddings. Nothing is
  clamped: the value is the cosine itself, negative when the cosine is.
\<close>

theorem calculate_similarity_cosine:
  assumes "linalg_norm (enc jd_text) \<noteq> 0" and "linalg_norm (enc resume_text) \<noteq> 0"
  shows "calculate_similarity enc jd_text resume_text
         = Fin (cosine (enc jd_text) (enc resume_text))"
  using assms
  by (simp add: calculate_similarity_def Let_def np_divide_def np_dot_def foldl_fl_add_Fin
      sum_list_scaled cosine_def dot_def)

text \<open>
  C4, witness: the embeddings \<open>[3, 4]\<close> and \<open>[4, 3]\<close> have norm 5 and similarity
  \<open>24/25\<close>.
\<close>

theorem calculate_similarity_cosine_witness:
  "linalg_norm (enc0 ''jd'') \<noteq> 0 \<and> linalg_norm (enc0 ''cv'') \<noteq> 0
   \<and> calculate_similarity enc0 ''jd'' ''cv'' = Fin (24 / 25)"
proof -
  have a: "linalg_norm (enc0 ''jd'') \<noteq> 0" by (simp add: linalg_norm_def enc0_def)
  have b: "linalg_norm (enc0 ''cv'') \<noteq> 0" by (simp add: linalg_norm_def enc0_def)
  have c: "cosine (enc0 ''jd'') (enc0 ''cv'') = 24 / 25"
    by (simp add: cosine_def dot_def linalg_norm_def enc0_def)
  show ?thesis using a b c calculate_similarity_cosine [OF a b] by simp
qed

text \<open>
  C4, counterexample to the clamp: for the opposite embeddings \<open>[3, 4]\<close> and \<open>[-3, -4]\<close>
  the code returns \<open>-1\<close>, where the clamped score of the specification is 0.
\<close>

theorem calculate_similarity_clamp_counterexample:
  "calculate_similarity enc0 ''jd'' ''neg'' = Fin (- 1)
   \<and> spec_semantic_score (enc0 ''jd'') (enc0 ''neg'') = 0"
  by (simp add: calculate_similarity_def np_divide_def np_dot_def linalg_norm_def enc0_def
      spec_semantic_score_def cosine_def dot_def)

subsection \<open>Inserting into a collection\<close>

text \<open>
  C7, as the code has it: an insert never looks at the identifiers already stored. For
  every state and every external id, present or not, \<open>add_jd_embedding\<close> and
  \<open>add_resume_embedding\<close> return the old \<open>ntotal\<close> as ordinal, append the embedding to the
  index and store the metadata entry under \<open>str(ntotal)\<close>.
\<close>

theorem add_embedding_appends:
  "fst (add_jd_embedding enc st x t md) = length (jd_index st)
   \<and> jd_index (snd (add_jd_embedding enc st x t md)) = jd_index st @ [enc t]
   \<and> jd_metadata (snd (add_jd_embedding enc st x t md))
       = (jd_metadata st)(str_nat (length (jd_index st)) \<mapsto> \<lparr>ext_id = x, metadata = md\<rparr>)
   \<and> fst (add_resume_embedding enc st x t md) = length (resume_index st)
   \<and> resume_index (snd (add_resume_embedding enc st x t md)) = resume_index st @ [enc t]
   \<and> resume_metadata (snd (add_resume_embedding enc st x t md))
       = (resume_metadata st)(str_nat (length (resume_index st)) \<mapsto>
            \<lparr>ext_id = x, metadata = md\<rparr>)"
  by (simp add: add_jd_embedding_def add_resume_embedding_def Let_def)

text \<open>
  C7, counterexample: the posting \<open>jd\<close> is stored at ordinal 0; inserting it again
  returns ordinal 1 and leaves two vectors and two entries for the same external id.
\<close>

theorem add_duplicate_counterexample:
  "map_option ext_id (jd_metadata svc1 ''0'') = Some ''jd''
   \<and> fst (add_jd_embedding enc0 svc1 ''jd'' ''jd'' ()) = 1
   \<and> jd_index (snd (add_jd_embedding enc0 svc1 ''jd'' ''jd'' ())) = [[3, 4], [3, 4]]
   \<and> map_option ext_id (jd_metadata (snd (add_jd_embedding enc0 svc1 ''jd'' ''jd'' ())) ''1'')
       = Some ''jd''"
  by (simp add: add_jd_embedding_def Let_def svc1_def enc0_def str_nat.simps digit_char_def)

subsection \<open>Nearest-neighbour search\<close>

lemma scored_eq:
  "map (\<lambda>(i, v). (l2sqr q v, i)) (enumerate 0 index)
   = map (\<lambda>i. (l2sqr q (index ! i), i)) [0..<length index]"
  by (rule nth_equalityI) (simp_all add: nth_enumerate_eq)

lemma set_scored:
  "(d, i) \<in> set (map (\<lambda>(i, v). (l2sqr q v, i)) (enumerate 0 index))
   \<longleftrightarrow> i < length index \<and> d = l2sqr q (index ! i)"
  unfolding scored_eq by auto

lemma distinct_scored:
  "distinct (map (\<lambda>(i, v). (l2sqr q v, i)) (enumerate 0 index))"
  unfolding scored_eq by (simp add: distinct_map inj_on_def)

lemma top_strict_sorted:
  "sorted_wrt (<) (take m (sort (map (\<lambda>(i, v). (l2sqr q v, i)) (enumerate 0 index))))"
proof -
  have "sorted_wrt (<) (sort (map (\<lambda>(i, v). (l2sqr q v, i)) (enumerate 0 index)))"
    using distinct_scored [of q index] by (simp add: strict_sorted_iff)
  then show ?thesis by (rule sorted_wrt_take)
qed

lemma search_results_top:
  "search_results meta (map fst tp) (map (\<lambda>(d, i). int i) tp)
   = map (\<lambda>(d, i). \<lparr>index_id = int i,
                     res_ext_id = (case meta (str_nat i) of None \<Rightarrow> [] | Some e \<Rightarrow> ext_id e),
                     res_metadata = map_option metadata (meta (str_nat i)),
                     similarity = 1 - d\<rparr>) tp"
  by (induction tp) (auto simp: search_results_def Let_def)

lemma faiss_search_in_range:
  assumes "0 < k" and "k \<le> int (length index)"
  shows "faiss_search index q k
         = Inr (map fst (take (nat k) (sort (map (\<lambda>(i, v). (l2sqr q v, i)) (enumerate 0 index)))),
                map (\<lambda>(d, i). int i)
                  (take (nat k) (sort (map (\<lambda>(i, v). (l2sqr q v, i)) (enumerate 0 index)))))"
proof -
  from assms have "nat k - length index = 0" by simp
  with assms show ?thesis by (simp add: faiss_search_def Let_def)
qed

lemma search_core:
  assumes "0 < k" and "index \<noteq> []"
  shows "\<exists>rs. (case faiss_search index q (min k (int (length index))) of
                Inl e \<Rightarrow> Inl e
              | Inr (distances, indices) \<Rightarrow> Inr (search_results meta distances indices)) = Inr rs
          \<and> nearest_ordered index q k rs"
proof -
  let ?scored = "map (\<lambda>(i, v). (l2sqr q v, i)) (enumerate 0 index)"
  let ?k = "min k (int (length index))"
  let ?top = "take (nat ?k) (sort ?scored)"
  let ?mk = "\<lambda>(d, i). \<lparr>index_id = int i,
                     res_ext_id = (case meta (str_nat i) of None \<Rightarrow> [] | Some e \<Rightarrow> ext_id e),
                     res_metadata = map_option metadata (meta (str_nat i)),
                     similarity = 1 - d\<rparr>"
  from assms have k: "0 < ?k" "?k \<le> int (length index)" by auto
  have run: "(case faiss_search index q ?k of
                Inl e \<Rightarrow> Inl e
              | Inr (distances, indices) \<Rightarrow> Inr (search_results meta distances indices))
             = Inr (map ?mk ?top)"
    by (simp add: faiss_search_in_range [OF k] search_results_top)
  have len: "length (map ?mk ?top) = min (nat k) (length index)"
  proof -
    from assms have "nat (min k (int (length index))) = min (nat k) (length index)" by simp
    then show ?thesis by simp
  qed
  have "sorted_wrt (<) ?top" by (rule top_strict_sorted)
  then have srt: "sorted_wrt (\<lambda>a b. 1 - similarity a < 1 - similarity b
                             \<or> 1 - similarity a = 1 - similarity b \<and> index_id a < index_id b)
                    (map ?mk ?top)"
    unfolding sorted_wrt_map by (rule sorted_wrt_mono_rel [rotated]) auto
  have mem: "\<forall>r \<in> set (map ?mk ?top). 0 \<le> index_id r \<and> index_id r < int (length index)
                 \<and> 1 - similarity r = l2sqr q (index ! nat (index_id r))"
  proof
    fix r assume "r \<in> set (map ?mk ?top)"
    then obtain d i where r: "r = ?mk (d, i)" and "(d, i) \<in> set ?top" by auto
    then have "(d, i) \<in> set ?scored" by (auto dest: in_set_takeD)
    then have "i < length index \<and> d = l2sqr q (index ! i)" by (simp only: set_scored)
    with r show "0 \<le> index_id r \<and> index_id r < int (length index)
                 \<and> 1 - similarity r = l2sqr q (index ! nat (index_id r))" by simp
  qed
  from run len srt mem show ?thesis unfolding nearest_ordered_def by blast
qed

lemma nearest_ordered_empty: "nearest_ordered [] q k []"
  by (simp add: nearest_ordered_def)

text \<open>
  C8, as the code has it: on an empty collection a search returns the empty sequence for
  every \<open>k\<close>, zero and negative \<open>k\<close> included; for \<open>k > 0\<close> it returns \<open>min(k, ntotal)\<close>
  records by non-decreasing squared Euclidean distance, equal distances by ascending
  ordinal. The code itself never rejects a \<open>k\<close>.
\<close>

theorem search_similar_sorted:
  "(jd_index st = [] \<longrightarrow> search_similar_jds enc st text k = Inr [])
   \<and> (resume_index st = [] \<longrightarrow> search_similar_resumes enc st text k = Inr [])
   \<and> (0 < k \<longrightarrow>
        (\<exists>rs. search_similar_jds enc st text k = Inr rs
              \<and> nearest_ordered (jd_index st) (enc text) k rs)
        \<and> (\<exists>rs. search_similar_resumes enc st text k = Inr rs
              \<and> nearest_ordered (resume_index st) (enc text) k rs))"
proof (intro conjI impI)
  show "search_similar_jds enc st text k = Inr []" if "jd_index st = []"
    using that by (simp add: search_similar_jds_def)
  show "search_similar_resumes enc st text k = Inr []" if "resume_index st = []"
    using that by (simp add: search_similar_resumes_def)
  show "\<exists>rs. search_similar_jds enc st text k = Inr rs
             \<and> nearest_ordered (jd_index st) (enc text) k rs" if "0 < k"
  proof (cases "jd_index st = []")
    case True
    then show ?thesis by (simp add: search_similar_jds_def nearest_ordered_empty)
  next
    case False
    with search_core [OF that False, where q = "enc text" and meta = "jd_metadata st"] show ?thesis
      by (simp add: search_similar_jds_def)
  qed
  show "\<exists>rs. search_similar_resumes enc st text k = Inr rs
             \<and> nearest_ordered (resume_index st) (enc text) k rs" if "0 < k"
  proof (cases "resume_index st = []")
    case True
    then show ?thesis by (simp add: search_similar_resumes_def nearest_ordered_empty)
  next
    case False
    with search_core [OF that False, where q = "enc text" and meta = "resume_metadata st"] show ?thesis
      by (simp add: search_similar_resumes_def)
  qed
qed

text \<open>
  C8, witness: three stored vectors, two of them equal; the query at the origin with
  \<open>k = 2\<close> returns the vector at distance 0 and then, of the two at distance 2, the one
  with the smaller ordinal. The profile collection is empty and returns nothing for
  \<open>k = -3\<close>.
\<close>

theorem search_similar_sorted_witness:
  "(0::int) < 2
   \<and> search_similar_jds enc0 svc2 ''q'' 2
       = Inr [\<lparr>index_id = 1, res_ext_id = ''origin'', res_metadata = Some (), similarity = 1\<rparr>,
              \<lparr>index_id = 0, res_ext_id = [], res_metadata = None, similarity = - 1\<rparr>]
   \<and> nearest_ordered (jd_index svc2) (enc0 ''q'') 2
         [\<lparr>index_id = 1, res_ext_id = ''origin'', res_metadata = Some (), similarity = 1\<rparr>,
          \<lparr>index_id = 0, res_ext_id = [], res_metadata = None, similarity = - 1\<rparr>]
   \<and> resume_index svc2 = []
   \<and> search_similar_resumes enc0 svc2 ''q'' (- 3) = Inr []"
proof -
  have e: "search_similar_jds enc0 svc2 ''q'' 2
   = Inr [\<lparr>index_id = 1, res_ext_id = ''origin'', res_metadata = Some (), similarity = 1\<rparr>,
          \<lparr>index_id = 0, res_ext_id = [], res_metadata = None, similarity = - 1\<rparr>]"
    by (simp add: search_similar_jds_def svc2_def enc0_def faiss_search_def l2sqr_def
      enumerate_eq_zip upt_rec take_Cons' search_results_def Let_def str_nat.simps digit_char_def)
  have r: "resume_index svc2 = []" by (simp add: svc2_def)
  from search_similar_sorted [of svc2 enc0 "''q''" 2] e
  have "nearest_ordered (jd_index svc2) (enc0 ''q'') 2
         [\<lparr>index_id = 1, res_ext_id = ''origin'', res_metadata = Some (), similarity = 1\<rparr>,
          \<lparr>index_id = 0, res_ext_id = [], res_metadata = None, similarity = - 1\<rparr>]"
    by simp
  moreover from search_similar_sorted [of svc2 enc0 "''q''" "- 3"] r
  have "search_similar_resumes enc0 svc2 ''q'' (- 3) = Inr []" by simp
  ultimately show ?thesis using e r by simp
qed

text \<open>
  C8, counterexample to the rejection of \<open>k \<le> 0\<close>: on the empty profile collection the
  search with \<open>k = 0\<close> and with \<open>k = -1\<close> returns the empty sequence and does not fail.
\<close>

theorem search_nonpositive_k_counterexample:
  "resume_index svc1 = []
   \<and> search_similar_resumes enc0 svc1 ''q'' 0 = Inr []
   \<and> search_similar_resumes enc0 svc1 ''q'' (- 1) = Inr []"
  by (simp add: search_similar_resumes_def svc1_def)

section \<open>Properties of the shortlister\<close>

subsection \<open>The rank update loop\<close>

lemma new_rank_notin: "x \<notin> set ys \<Longrightarrow> new_rank n ys x cur = cur"
  by (induction ys arbitrary: n cur) auto

lemma new_rank_distinct:
  "distinct ys \<Longrightarrow> k < length ys \<Longrightarrow> new_rank n ys (ys ! k) cur = Some (n + k)"
proof (induction ys arbitrary: n k cur)
  case Nil
  then show ?case by simp
next
  case (Cons y ys)
  show ?case
  proof (cases k)
    case 0
    with Cons.prems show ?thesis by (simp add: new_rank_notin)
  next
    case (Suc k')
    with Cons.prems have "ys ! k' \<noteq> y" by auto
    with Suc Cons show ?thesis by simp
  qed
qed

lemma update_ranks_no_fault:
  "update_ranks None stmt n rows j W
   = Some (map (\<lambda>row. if job_id row = j
                        then row\<lparr>rank := new_rank n (map fst rows) (resume_id row) (rank row)\<rparr>
                        else row) W)"
proof (induction rows arbitrary: stmt n W)
  case Nil
  then show ?case by (simp add: map_idI)
next
  case (Cons p rows)
  obtain r_id score where p: "p = (r_id, score)" by (cases p)
  show ?case
    unfolding p by (simp add: Cons.IH update_rank_def comp_def cong: if_cong)
qed

lemma update_ranks_fault:
  "update_ranks fault stmt n rows j W
   = (if \<exists>m. fault = Some m \<and> stmt \<le> m \<and> m < stmt + length rows then None
      else update_ranks None stmt n rows j W)"
proof (induction rows arbitrary: stmt n W)
  case Nil
  then show ?case by simp
next
  case (Cons p rows)
  obtain r_id score where p: "p = (r_id, score)" by (cases p)
  show ?case
  proof (cases "fault = Some stmt")
    case True
    then show ?thesis unfolding p by auto
  next
    case False
    have c: "(\<exists>m. fault = Some m \<and> stmt \<le> m \<and> m < stmt + length (p # rows))
          \<longleftrightarrow> (\<exists>m. fault = Some m \<and> Suc stmt \<le> m \<and> m < Suc stmt + length rows)"
      using False by (auto simp: Suc_le_eq order_le_less)
    have l: "update_ranks fault stmt n (p # rows) j W
             = update_ranks fault (Suc stmt) (Suc n) rows j (update_rank W n r_id j)"
      using False p by simp
    have r: "update_ranks None stmt n (p # rows) j W
             = update_ranks None (Suc stmt) (Suc n) rows j (update_rank W n r_id j)"
      using p by simp
    show ?thesis unfolding l r c by (rule Cons.IH)
  qed
qed

subsection \<open>The stored table\<close>

lemma store_ranking_no_fault:
  "store_ranking None T r j (Fin x) flag = rerank (insert_or_replace T r j x flag) j"
  by (simp add: store_ranking_def Let_def update_ranks_no_fault rerank_def)

lemma store_ranking_nan: "store_ranking fault T r j NaN flag = T"
  by (simp add: store_ranking_def)

lemma store_ranking_fault:
  "store_ranking (Some n) T r j (Fin x) flag
   = (if n \<le> 3 + length (select_rankings (insert_or_replace T r j x flag) j) then T
      else rerank (insert_or_replace T r j x flag) j)"
proof -
  let ?W = "insert_or_replace T r j x flag"
  let ?rows = "select_rankings ?W j"
  consider "n = 0" | "n = 1" | "n = 2" | "3 \<le> n" "n < 3 + length ?rows"
    | "n = 3 + length ?rows" | "3 + length ?rows < n" by linarith
  then show ?thesis
  proof cases
    case 4
    then have "update_ranks (Some n) 3 1 ?rows j ?W = None"
      by (subst update_ranks_fault) simp
    with 4 show ?thesis by (simp add: store_ranking_def Let_def)
  next
    case 5
    then have "update_ranks (Some n) 3 1 ?rows j ?W = update_ranks None 3 1 ?rows j ?W"
      by (subst update_ranks_fault) simp
    with 5 show ?thesis by (simp add: store_ranking_def Let_def update_ranks_no_fault)
  next
    case 6
    then have "update_ranks (Some n) 3 1 ?rows j ?W = update_ranks None 3 1 ?rows j ?W"
      by (subst update_ranks_fault) simp
    with 6 show ?thesis by (simp add: store_ranking_def Let_def update_ranks_no_fault rerank_def)
  qed (simp_all add: store_ranking_def)
qed

lemma rerank_keys: "map pair_key (rerank W j) = map pair_key W"
  by (simp add: rerank_def comp_def pair_key_def cong: if_cong)

lemma length_select: "length (select_rankings W j) = length (filter (\<lambda>row. job_id row = j) W)"
  by (simp add: select_rankings_def)

lemma filter_rerank:
  "filter (\<lambda>row. job_id row = j) (rerank W j)
   = map (\<lambda>row. row\<lparr>rank := new_rank 1 (map fst (select_rankings W j)) (resume_id row) (rank row)\<rparr>)
         (filter (\<lambda>row. job_id row = j) W)"
  by (simp add: rerank_def filter_map comp_def cong: if_cong)

lemma select_ids:
  "map fst (select_rankings W j)
   = map resume_id (sort_key (\<lambda>row. - match_score row) (filter (\<lambda>row. job_id row = j) W))"
  by (simp add: select_rankings_def comp_def)

lemma distinct_job_ids:
  assumes "distinct (map pair_key W)"
  shows "distinct (map resume_id (filter (\<lambda>row. job_id row = j) W))"
proof -
  from assms have "distinct (map pair_key (filter (\<lambda>row. job_id row = j) W))"
    by (rule distinct_map_filter)
  moreover have "map pair_key (filter (\<lambda>row. job_id row = j) W)
                 = map (\<lambda>x. (x, j)) (map resume_id (filter (\<lambda>row. job_id row = j) W))"
    by (induction W) (auto simp: pair_key_def)
  ultimately have "distinct (map (\<lambda>x. (x, j)) (map resume_id (filter (\<lambda>row. job_id row = j) W)))"
    by (simp only:)
  then show ?thesis unfolding distinct_map [of "\<lambda>x. (x, j)"] by (rule conjunct1)
qed

lemma distinct_select_ids:
  assumes "distinct (map pair_key W)"
  shows "distinct (map fst (select_rankings W j))"
proof -
  let ?F = "filter (\<lambda>row. job_id row = j) W"
  let ?S = "sort_key (\<lambda>row. - match_score row) ?F"
  have "mset (map resume_id ?S) = mset (map resume_id ?F)" by simp
  then have "distinct (map resume_id ?S) \<longleftrightarrow> distinct (map resume_id ?F)"
    by (rule mset_eq_imp_distinct_iff)
  with distinct_job_ids [OF assms] show ?thesis by (simp add: select_ids)
qed

lemma sorted_ranks:
  assumes "distinct (map pair_key W)"
  shows "map (\<lambda>row. new_rank 1 (map fst (select_rankings W j)) (resume_id row) (rank row))
             (sort_key (\<lambda>row. - match_score row) (filter (\<lambda>row. job_id row = j) W))
         = map Some [1..<Suc (length (filter (\<lambda>row. job_id row = j) W))]"
proof (rule nth_equalityI)
  let ?S = "sort_key (\<lambda>row. - match_score row) (filter (\<lambda>row. job_id row = j) W)"
  let ?ids = "map fst (select_rankings W j)"
  show "length (map (\<lambda>row. new_rank 1 ?ids (resume_id row) (rank row)) ?S)
        = length (map Some [1..<Suc (length (filter (\<lambda>row. job_id row = j) W))])"
    by (simp del: upt_Suc)
  fix k assume "k < length (map (\<lambda>row. new_rank 1 ?ids (resume_id row) (rank row)) ?S)"
  then have k: "k < length ?S" by simp
  then have "resume_id (?S ! k) = ?ids ! k" by (simp add: select_ids)
  moreover from k have "k < length ?ids" by (simp add: select_ids)
  ultimately have "new_rank 1 ?ids (resume_id (?S ! k)) (rank (?S ! k)) = Some (1 + k)"
    using new_rank_distinct [OF distinct_select_ids [OF assms], of k j 1] by simp
  with k show "map (\<lambda>row. new_rank 1 ?ids (resume_id row) (rank row)) ?S ! k
               = map Some [1..<Suc (length (filter (\<lambda>row. job_id row = j) W))] ! k"
    by (simp add: nth_append del: upt_Suc)
qed

lemma rerank_permutation:
  assumes "distinct (map pair_key W)"
  shows "mset (map rank (filter (\<lambda>row. job_id row = j) (rerank W j)))
         = mset (map Some [1..<Suc (length (filter (\<lambda>row. job_id row = j) W))])"
proof -
  let ?F = "filter (\<lambda>row. job_id row = j) W"
  let ?S = "sort_key (\<lambda>row. - match_score row) ?F"
  let ?h = "\<lambda>row. new_rank 1 (map fst (select_rankings W j)) (resume_id row) (rank row)"
  have 1: "map rank (filter (\<lambda>row. job_id row = j) (rerank W j)) = map ?h ?F"
    by (simp add: filter_rerank comp_def)
  have 2: "mset (map ?h ?F) = mset (map ?h ?S)" by simp
  have 3: "map ?h ?S = map Some [1..<Suc (length ?F)]" by (rule sorted_ranks [OF assms])
  show ?thesis by (simp only: 1 2 3)
qed

lemma rerank_order:
  assumes "distinct (map pair_key W)"
    and "a \<in> set (rerank W j)" and "job_id a = j"
    and "b \<in> set (rerank W j)" and "job_id b = j"
    and "match_score b < match_score a"
  shows "\<exists>m n. rank a = Some m \<and> rank b = Some n \<and> m < n"
proof -
  let ?F = "filter (\<lambda>row. job_id row = j) W"
  let ?S = "sort_key (\<lambda>row. - match_score row) ?F"
  let ?ids = "map fst (select_rankings W j)"
  let ?h = "\<lambda>row. new_rank 1 ?ids (resume_id row) (rank row)"
  have pos: "\<exists>k < length ?S. match_score c = match_score (?S ! k) \<and> rank c = Some (1 + k)"
    if "c \<in> set (rerank W j)" and "job_id c = j" for c
  proof -
    from that have "c \<in> set (filter (\<lambda>row. job_id row = j) (rerank W j))" by simp
    then obtain c0 where c0: "c0 \<in> set ?F" "c = c0\<lparr>rank := ?h c0\<rparr>"
      unfolding filter_rerank by auto
    then have "c0 \<in> set ?S" by simp
    then obtain k where k: "k < length ?S" "?S ! k = c0" by (metis in_set_conv_nth)
    have "map ?h ?S ! k = map Some [1..<Suc (length ?F)] ! k"
      by (simp only: sorted_ranks [OF assms(1)])
    with k have "?h c0 = Some (1 + k)" by (simp del: upt_Suc)
    with c0 k show ?thesis by auto
  qed
  from pos [OF assms(2,3)] obtain ka where
    ka: "ka < length ?S" "match_score a = match_score (?S ! ka)" "rank a = Some (1 + ka)" by blast
  from pos [OF assms(4,5)] obtain kb where
    kb: "kb < length ?S" "match_score b = match_score (?S ! kb)" "rank b = Some (1 + kb)" by blast
  have srt: "sorted (map (\<lambda>row. - match_score row) ?S)" by (rule sorted_sort_key)
  have "ka < kb"
  proof (rule ccontr)
    assume "\<not> ka < kb"
    then have "kb \<le> ka" by simp
    with srt ka(1) have "map (\<lambda>row. - match_score row) ?S ! kb \<le> map (\<lambda>row. - match_score row) ?S ! ka"
      by (intro sorted_nth_mono) simp_all
    with ka kb assms(6) show False by simp
  qed
  with ka kb show ?thesis by simp
qed

subsection \<open>The scoring call\<close>

lemma shortlist_candidate_Inr:
  assumes "shortlist_candidate e fault db j r = Inr ((ms, flag), db')"
  shows "flag = fl_ge ms (Fin 80)
         \<and> db' = db\<lparr>rankings := store_ranking fault (rankings db) r j ms flag\<rparr>"
  using assms
  by (auto simp: shortlist_candidate_def Let_def shortlist_threshold_def split: sum.splits)

lemma shortlist_candidate_zero_match:
  assumes "evaluate_detailed_match e db j r = zero_match"
  shows "shortlist_candidate e fault db j r
         = Inr ((fl_mul (fl_mul (Fin 0.6) (evaluate_semantic_similarity e db j r)) (Fin 100),
                 fl_ge (fl_mul (fl_mul (Fin 0.6) (evaluate_semantic_similarity e db j r)) (Fin 100))
                       (Fin 80)),
                db\<lparr>rankings := store_ranking fault (rankings db) r j
                       (fl_mul (fl_mul (Fin 0.6) (evaluate_semantic_similarity e db j r)) (Fin 100))
                       (fl_ge (fl_mul (fl_mul (Fin 0.6) (evaluate_semantic_similarity e db j r))
                                 (Fin 100)) (Fin 80))\<rparr>)"
proof (cases "evaluate_semantic_similarity e db j r")
  case (Fin s)
  with assms show ?thesis
    by (simp add: shortlist_candidate_def Let_def shortlist_threshold_def zero_match_def
        get_overall_score_def div_100_def)
next
  case NaN
  with assms show ?thesis
    by (simp add: shortlist_candidate_def Let_def shortlist_threshold_def zero_match_def
        get_overall_score_def div_100_def)
qed

text \<open>
  The two exceptions that do leave \<open>shortlist_candidate\<close>: an answer of the judge that is
  JSON but not an object has no \<open>get\<close>, and an \<open>overall_score\<close> that is a string cannot be
  divided.
\<close>

lemma shortlist_candidate_raises:
  "evaluate_detailed_match e db j r = JArr vs
     \<Longrightarrow> shortlist_candidate e fault db j r = Inl AttributeError"
  "evaluate_detailed_match e db j r = JObj [(''overall_score'', JStr t)]
     \<Longrightarrow> shortlist_candidate e fault db j r = Inl TypeError"
  by (simp_all add: shortlist_candidate_def Let_def get_overall_score_def div_100_def)

lemma sem_db_with:
  "evaluate_semantic_similarity (env_of answer) (db_with T) ''J1'' ''a'' = Fin (24 / 25)"
  by (simp add: evaluate_semantic_similarity_def get_job_description_def get_resume_def db_with_def
      env_of_def jd1_def cv1_def jd_text_of_def resume_text_of_def semantic_experience_text_def
      education_text_of_def nl_def enc1_def calculate_similarity_def np_divide_def np_dot_def
      linalg_norm_def)

lemma sem_db_with_b:
  "evaluate_semantic_similarity (env_of answer) (db_with T) ''J1'' ''b'' = Fin (24 / 25)"
  by (simp add: evaluate_semantic_similarity_def get_job_description_def get_resume_def db_with_def
      env_of_def jd1_def cv1_def jd_text_of_def resume_text_of_def semantic_experience_text_def
      education_text_of_def nl_def enc1_def calculate_similarity_def np_divide_def np_dot_def
      linalg_norm_def)

lemma detailed_ok:
  "evaluate_detailed_match (env_of (Response (Some ''ok''))) (db_with T) ''J1'' ''a''
   = JObj [(''overall_score'', JNum 90)]"
  by (simp add: evaluate_detailed_match_def get_job_description_def get_resume_def db_with_def
      env_of_def loads0_def)

lemma detailed_b:
  "evaluate_detailed_match (env_of (Response (Some ''ok''))) (db_with T) ''J1'' ''b''
   = JObj [(''overall_score'', JNum 90)]"
  by (simp add: evaluate_detailed_match_def get_job_description_def get_resume_def db_with_def
      env_of_def loads0_def)

lemma in_rerank:
  "row \<in> set (rerank W j) \<Longrightarrow> \<exists>row0 \<in> set W. \<exists>n. row = row0\<lparr>rank := n\<rparr>"
proof -
  assume "row \<in> set (rerank W j)"
  then obtain row0 where row0: "row0 \<in> set W"
    and row: "row = (if job_id row0 = j
                     then row0\<lparr>rank := new_rank 1 (map fst (select_rankings W j)) (resume_id row0)
                                         (rank row0)\<rparr>
                     else row0)"
    by (auto simp: rerank_def)
  show ?thesis
  proof (cases "job_id row0 = j")
    case True
    with row0 row show ?thesis by auto
  next
    case False
    with row have "row = row0\<lparr>rank := rank row0\<rparr>" by simp
    with row0 show ?thesis by blast
  qed
qed

lemma in_store_ranking:
  assumes "row \<in> set (store_ranking fault T r j (Fin x) flag)"
  shows "(\<exists>row0 \<in> set T. \<exists>n. row = row0\<lparr>rank := n\<rparr>)
         \<or> (\<exists>n. row = \<lparr>resume_id = r, job_id = j, match_score = x, rank = n, shortlisted = flag\<rparr>)"
proof -
  have "store_ranking fault T r j (Fin x) flag = T
        \<or> store_ranking fault T r j (Fin x) flag = rerank (insert_or_replace T r j x flag) j"
    by (cases fault) (simp_all add: store_ranking_no_fault store_ranking_fault)
  then show ?thesis
  proof
    assume "store_ranking fault T r j (Fin x) flag = T"
    with assms have "row \<in> set T" by simp
    then have "\<exists>row0 \<in> set T. \<exists>n. row = row0\<lparr>rank := n\<rparr>"
      by (intro bexI [of _ row] exI [of _ "rank row"]) simp_all
    then show ?thesis ..
  next
    assume "store_ranking fault T r j (Fin x) flag = rerank (insert_or_replace T r j x flag) j"
    with assms in_rerank obtain row0 n where
      "row0 \<in> set (insert_or_replace T r j x flag)" "row = row0\<lparr>rank := n\<rparr>" by metis
    then show ?thesis by (auto simp: insert_or_replace_def)
  qed
qed

lemma new_rank_in: "x \<in> set ys \<Longrightarrow> \<exists>m. new_rank n ys x cur = Some m"
proof (induction ys arbitrary: n cur)
  case Nil
  then show ?case by simp
next
  case (Cons y ys)
  show ?case
  proof (cases "x \<in> set ys")
    case True
    then show ?thesis using Cons.IH by simp
  next
    case False
    with Cons.prems show ?thesis by (simp add: new_rank_notin)
  qed
qed

lemma stored_row:
  "\<exists>n. filter (\<lambda>row. pair_key row = (r, j)) (store_ranking None T r j (Fin x) flag)
        = [\<lparr>resume_id = r, job_id = j, match_score = x, rank = Some n, shortlisted = flag\<rparr>]"
proof -
  let ?W = "insert_or_replace T r j x flag"
  let ?new = "\<lparr>resume_id = r, job_id = j, match_score = x, rank = None, shortlisted = flag\<rparr>"
  let ?ids = "map fst (select_rankings ?W j)"
  have "?new \<in> set (filter (\<lambda>row. job_id row = j) ?W)" by (simp add: insert_or_replace_def)
  then have "r \<in> set ?ids" by (force simp: select_ids)
  then obtain n where n: "new_rank 1 ?ids r None = Some n" using new_rank_in by blast
  have "filter (\<lambda>row. pair_key row = (r, j)) (rerank ?W j)
        = map (\<lambda>row. row\<lparr>rank := new_rank 1 ?ids (resume_id row) (rank row)\<rparr>)
              (filter (\<lambda>row. pair_key row = (r, j)) ?W)"
    by (simp add: rerank_def filter_map comp_def pair_key_def cong: if_cong)
       (rule map_cong, auto intro: filter_cong)
  moreover have "filter (\<lambda>row. pair_key row = (r, j)) ?W = [?new]"
    by (simp add: insert_or_replace_def pair_key_def)
  ultimately show ?thesis using n by (simp add: store_ranking_no_fault)
qed

subsection \<open>The match percentage\<close>

text \<open>
  C1: when the semantic similarity of the pair is \<open>s\<close> and the judge's answer is an object
  whose \<open>overall_score\<close> is the number \<open>jv\<close>, the score that \<open>shortlist_candidate\<close>
  returns is \<open>(0.6 * s + 0.4 * (jv / 100)) * 100\<close> as a real number: nothing is rounded or
  truncated to an integer. This holds whether or not the database write succeeds.
\<close>

theorem shortlist_score_formula:
  assumes "evaluate_semantic_similarity e db j r = Fin s"
    and "evaluate_detailed_match e db j r = JObj items"
    and "map_of items ''overall_score'' = Some (JNum jv)"
  shows "\<exists>flag db'. shortlist_candidate e fault db j r
                      = Inr ((Fin ((0.6 * s + 0.4 * (jv / 100)) * 100), flag), db')"
  using assms by (simp add: shortlist_candidate_def Let_def get_overall_score_def div_100_def)

text \<open>
  C1, witness: similarity \<open>24/25\<close> and a judge score of 90 give \<open>93.6\<close>, which is not an
  integer.
\<close>

theorem shortlist_score_formula_witness:
  "evaluate_semantic_similarity (env_of (Response (Some ''ok''))) (db_with []) ''J1'' ''a''
     = Fin (24 / 25)
   \<and> evaluate_detailed_match (env_of (Response (Some ''ok''))) (db_with []) ''J1'' ''a''
     = JObj [(''overall_score'', JNum 90)]
   \<and> map_of [(''overall_score'', JNum 90)] ''overall_score'' = Some (JNum 90)
   \<and> (\<exists>flag db'. shortlist_candidate (env_of (Response (Some ''ok''))) None (db_with []) ''J1'' ''a''
                     = Inr ((Fin (468 / 5), flag), db'))"
proof -
  have m: "map_of [(''overall_score'', JNum 90)] ''overall_score'' = Some (JNum 90)" by simp
  from shortlist_score_formula [OF sem_db_with [of "Response (Some ''ok'')" "[]"]
      detailed_ok [of "[]"] m, of None]
  show ?thesis using sem_db_with [of "Response (Some ''ok'')" "[]"] detailed_ok [of "[]"] m by simp
qed

subsection \<open>Evaluation on the concrete inputs\<close>

lemma detailed_down:
  "evaluate_detailed_match (env_of InvokeRaises) (db_with T) ''J1'' ''b'' = zero_match"
  by (simp add: evaluate_detailed_match_def get_job_description_def get_resume_def db_with_def
      env_of_def)

lemma db_with_rankings: "db_with T\<lparr>rankings := T'\<rparr> = db_with T'"
  by (simp add: db_with_def)

lemma rankings_db_with: "rankings (db_with T) = T"
  by (simp add: db_with_def)

lemma score_ok:
  "get_overall_score (JObj [(''overall_score'', JNum 90)]) = Inr (JNum 90)"
  "div_100 (JNum 90) = Inr (Fin (9 / 10))"
  by (simp_all add: get_overall_score_def div_100_def)

lemma run_b:
  "shortlist_candidate env_ok None (db_with []) ''J1'' ''b''
   = Inr ((Fin (468 / 5), True), db_with rows_b)"
  by (simp add: shortlist_candidate_def env_ok_def sem_db_with_b detailed_b score_ok
      shortlist_threshold_def store_ranking_def insert_or_replace_def select_rankings_def
      update_rank_def rows_b_def db_with_rankings rankings_db_with Let_def)

lemma run_a:
  "shortlist_candidate env_ok fault (db_with rows_b) ''J1'' ''a''
   = Inr ((Fin (468 / 5), True), db_with (store_ranking fault rows_b ''a'' ''J1'' (Fin (468 / 5)) True))"
  by (simp add: shortlist_candidate_def env_ok_def sem_db_with detailed_ok score_ok
      shortlist_threshold_def db_with_rankings rankings_db_with Let_def)

lemma store_a: "store_ranking None rows_b ''a'' ''J1'' (Fin (468 / 5)) True = rows_ba"
  by (simp add: store_ranking_def insert_or_replace_def select_rankings_def
      update_rank_def rows_b_def rows_ba_def Let_def)

lemma run_b_again:
  "shortlist_candidate env_down None (db_with rows_ba) ''J1'' ''b''
   = Inr ((Fin (288 / 5), False), db_with rows_ab)"
proof -
  have dm: "evaluate_detailed_match env_down (db_with rows_ba) ''J1'' ''b'' = zero_match"
    unfolding env_down_def by (rule detailed_down)
  have sem: "evaluate_semantic_similarity env_down (db_with rows_ba) ''J1'' ''b'' = Fin (24 / 25)"
    unfolding env_down_def by (rule sem_db_with_b)
  have st: "store_ranking None rows_ba ''b'' ''J1'' (Fin (288 / 5)) False = rows_ab"
    by (simp add: store_ranking_def insert_or_replace_def select_rankings_def
        update_rank_def rows_ba_def rows_ab_def Let_def)
  show ?thesis
    by (subst shortlist_candidate_zero_match [OF dm])
       (simp add: sem st db_with_rankings rankings_db_with)
qed

subsection \<open>The shortlist flag\<close>

text \<open>
  C2: the flag that \<open>shortlist_candidate\<close> returns is true exactly when the computed match
  percentage is at least 80 (\<open>shortlist_threshold * 100\<close>, the threshold being the constant
  0.8 set in the constructor). The row written for the pair carries this score and this
  flag, and when every row of the table satisfies
  \<open>shortlisted = (match_score \<ge> 80)\<close> before the call, every row does after it.
\<close>

theorem shortlist_flag_threshold:
  assumes "shortlist_candidate e fault db j r = Inr ((ms, flag), db')"
  shows "flag = fl_ge ms (Fin 80)
         \<and> ((\<forall>row \<in> set (rankings db). shortlisted row = (80 \<le> match_score row))
              \<longrightarrow> (\<forall>row \<in> set (rankings db'). shortlisted row = (80 \<le> match_score row)))
         \<and> (fault = None \<longrightarrow>
              (\<forall>x. ms = Fin x \<longrightarrow>
                 (\<exists>n. filter (\<lambda>row. pair_key row = (r, j)) (rankings db')
                       = [\<lparr>resume_id = r, job_id = j, match_score = x, rank = Some n,
                           shortlisted = (80 \<le> x)\<rparr>])))"
proof -
  from shortlist_candidate_Inr [OF assms]
  have flag: "flag = fl_ge ms (Fin 80)"
    and db': "db' = db\<lparr>rankings := store_ranking fault (rankings db) r j ms flag\<rparr>" by simp_all
  have inv: "\<forall>row \<in> set (rankings db'). shortlisted row = (80 \<le> match_score row)"
    if old: "\<forall>row \<in> set (rankings db). shortlisted row = (80 \<le> match_score row)"
  proof (cases ms)
    case NaN
    with db' old show ?thesis by (simp add: store_ranking_nan)
  next
    case (Fin x)
    show ?thesis
    proof
      fix row assume "row \<in> set (rankings db')"
      with db' Fin have "row \<in> set (store_ranking fault (rankings db) r j (Fin x) flag)" by simp
      from in_store_ranking [OF this] old flag Fin
      show "shortlisted row = (80 \<le> match_score row)" by auto
    qed
  qed
  have new: "\<exists>n. filter (\<lambda>row. pair_key row = (r, j)) (rankings db')
                   = [\<lparr>resume_id = r, job_id = j, match_score = x, rank = Some n,
                       shortlisted = (80 \<le> x)\<rparr>]"
    if "fault = None" and "ms = Fin x" for x
    using that db' flag stored_row [of r j "rankings db" x flag] by simp
  from flag inv new show ?thesis by blast
qed

text \<open>
  C2, witness: with \<open>b\<close> already ranked, scoring \<open>a\<close> yields \<open>93.6\<close> and the flag true, and
  both stored rows agree with their scores.
\<close>

theorem shortlist_flag_threshold_witness:
  "shortlist_candidate env_ok None (db_with rows_b) ''J1'' ''a''
     = Inr ((Fin (468 / 5), True), db_with rows_ba)
   \<and> True = fl_ge (Fin (468 / 5)) (Fin 80)
   \<and> list_all (\<lambda>row. shortlisted row = (80 \<le> match_score row)) (rankings (db_with rows_b))
   \<and> list_all (\<lambda>row. shortlisted row = (80 \<le> match_score row)) (rankings (db_with rows_ba))
   \<and> (\<exists>n. filter (\<lambda>row. pair_key row = (''a'', ''J1'')) (rankings (db_with rows_ba))
           = [\<lparr>resume_id = ''a'', job_id = ''J1'', match_score = 468 / 5, rank = Some n,
               shortlisted = (80 \<le> (468 / 5 :: real))\<rparr>])"
proof -
  have run: "shortlist_candidate env_ok None (db_with rows_b) ''J1'' ''a''
             = Inr ((Fin (468 / 5), True), db_with rows_ba)"
    by (simp add: run_a store_a)
  have old: "\<forall>row \<in> set (rankings (db_with rows_b)). shortlisted row = (80 \<le> match_score row)"
    by (simp add: rankings_db_with rows_b_def)
  from shortlist_flag_threshold [OF run] old run show ?thesis
    by (simp add: list_all_iff)
qed

subsection \<open>A pair that does not exist\<close>

text \<open>
  C10: when the posting or the profile has no row, the semantic score is 0, the judge is
  not asked and its breakdown is the default \<open>{"overall_score": 0.0}\<close>, the call returns
  \<open>(0.0, False)\<close> without raising, and when the database write succeeds the rankings table
  holds one row for the pair with score 0.
\<close>

theorem missing_pair_zero:
  assumes "job_descriptions db j = None \<or> resumes db r = None"
  shows "evaluate_semantic_similarity e db j r = Fin 0
         \<and> evaluate_detailed_match e db j r = zero_match
         \<and> (\<exists>db'. shortlist_candidate e fault db j r = Inr ((Fin 0, False), db')
                \<and> (fault = None \<longrightarrow>
                     (\<exists>n. filter (\<lambda>row. pair_key row = (r, j)) (rankings db')
                           = [\<lparr>resume_id = r, job_id = j, match_score = 0, rank = Some n,
                               shortlisted = False\<rparr>])))"
proof -
  from assms have sem: "evaluate_semantic_similarity e db j r = Fin 0"
    by (auto simp: evaluate_semantic_similarity_def get_job_description_def get_resume_def
        split: option.splits)
  from assms have dm: "evaluate_detailed_match e db j r = zero_match"
    by (auto simp: evaluate_detailed_match_def get_job_description_def get_resume_def
        split: option.splits)
  have run: "shortlist_candidate e fault db j r
             = Inr ((Fin 0, False), db\<lparr>rankings := store_ranking fault (rankings db) r j (Fin 0) False\<rparr>)"
    by (subst shortlist_candidate_zero_match [OF dm]) (simp add: sem)
  from stored_row [of r j "rankings db" 0 False] sem dm run show ?thesis by auto
qed

text \<open>
  C10, witness: posting \<open>J9\<close> and profile \<open>z\<close> are unknown; the call returns
  \<open>(0.0, False)\<close> and leaves a row for the pair, ranked first.
\<close>

theorem missing_pair_zero_witness:
  "(job_descriptions (db_with []) ''J9'' = None \<or> resumes (db_with []) ''z'' = None)
   \<and> evaluate_semantic_similarity env_ok (db_with []) ''J9'' ''z'' = Fin 0
   \<and> shortlist_candidate env_ok None (db_with []) ''J9'' ''z''
       = Inr ((Fin 0, False),
              db_with [\<lparr>resume_id = ''z'', job_id = ''J9'', match_score = 0, rank = Some 1,
                        shortlisted = False\<rparr>])"
proof -
  have h: "job_descriptions (db_with []) ''J9'' = None \<or> resumes (db_with []) ''z'' = None"
    by (simp add: db_with_def)
  have st: "store_ranking None [] ''z'' ''J9'' (Fin 0) False
            = [\<lparr>resume_id = ''z'', job_id = ''J9'', match_score = 0, rank = Some 1,
                shortlisted = False\<rparr>]"
    by (simp add: store_ranking_def insert_or_replace_def select_rankings_def update_rank_def Let_def)
  from missing_pair_zero [OF h, of env_ok None]
  have sem: "evaluate_semantic_similarity env_ok (db_with []) ''J9'' ''z'' = Fin 0"
    and dm: "evaluate_detailed_match env_ok (db_with []) ''J9'' ''z'' = zero_match" by simp_all
  have "shortlist_candidate env_ok None (db_with []) ''J9'' ''z''
       = Inr ((Fin 0, False),
              db_with [\<lparr>resume_id = ''z'', job_id = ''J9'', match_score = 0, rank = Some 1,
                        shortlisted = False\<rparr>])"
    by (subst shortlist_candidate_zero_match [OF dm])
       (simp add: sem st db_with_rankings rankings_db_with)
  with h sem show ?thesis by simp
qed

subsection \<open>A failing judge\<close>

text \<open>
  The failures of the judge that \<open>evaluate_detailed_match\<close> turns into the default
  breakdown: no chain was built, the call raises (a timeout included), or the text of the
  reply is rejected by \<open>json.loads\<close>.
\<close>

lemma detailed_match_no_chain:
  "\<not> has_chain e \<Longrightarrow> evaluate_detailed_match e db j r = zero_match"
  by (simp add: evaluate_detailed_match_def)

lemma detailed_match_invoke_raises:
  assumes "get_job_description db j = Some jd" and "get_resume db r = Some cv"
    and "chain_invoke e (jd_text_of (replicate 12 CHR '' '') jd)
           (resume_text_of (replicate 12 CHR '' '') cv (detailed_experience_text (cv_experience cv)))
         = InvokeRaises"
  shows "evaluate_detailed_match e db j r = zero_match"
  using assms by (simp add: evaluate_detailed_match_def)

lemma detailed_match_not_json:
  assumes "get_job_description db j = Some jd" and "get_resume db r = Some cv"
    and "chain_invoke e (jd_text_of (replicate 12 CHR '' '') jd)
           (resume_text_of (replicate 12 CHR '' '') cv (detailed_experience_text (cv_experience cv)))
         = Response (Some t)"
    and "json_loads e t = None"
  shows "evaluate_detailed_match e db j r = zero_match"
  using assms by (simp add: evaluate_detailed_match_def)

text \<open>With the default breakdown the score is \<open>0.6 * s * 100\<close> and nothing is raised.\<close>

lemma default_breakdown_score:
  assumes "evaluate_semantic_similarity e db j r = Fin s"
    and "evaluate_detailed_match e db j r = zero_match"
  shows "shortlist_candidate e fault db j r
         = Inr ((Fin (0.6 * s * 100), 80 \<le> 0.6 * s * 100),
                db\<lparr>rankings := store_ranking fault (rankings db) r j (Fin (0.6 * s * 100))
                                  (80 \<le> 0.6 * s * 100)\<rparr>)"
  by (subst shortlist_candidate_zero_match [OF assms(2)]) (simp add: assms(1))

lemma sem_env_reply:
  "evaluate_semantic_similarity (env_reply t) (db_with T) ''J1'' ''b'' = Fin (24 / 25)"
  by (simp add: evaluate_semantic_similarity_def get_job_description_def get_resume_def db_with_def
      env_reply_def jd1_def cv1_def jd_text_of_def resume_text_of_def semantic_experience_text_def
      education_text_of_def nl_def enc1_def calculate_similarity_def np_divide_def np_dot_def
      linalg_norm_def)

lemma detailed_env_reply:
  "evaluate_detailed_match (env_reply t) (db_with T) ''J1'' ''b''
   = (case loads1 t of None \<Rightarrow> zero_match | Some result \<Rightarrow> result)"
  by (simp add: evaluate_detailed_match_def get_job_description_def get_resume_def db_with_def
      env_reply_def)

text \<open>
  C5, at the failing inputs: posting \<open>J1\<close> and profile \<open>b\<close> exist and the chain is built.
  When the judge replies with the JSON array \<open>[1, 2]\<close> or with \<open>null\<close>, the call raises
  \<open>AttributeError\<close>; when it replies with an object whose \<open>overall_score\<close> is the string
  \<open>85\<close>, the call raises \<open>TypeError\<close>. The exception is raised before the database is
  opened, so no row is written. A reply that is not JSON at all is handled on the same
  input: the score is \<open>57.6\<close> and the row of the pair is rewritten.
\<close>

theorem malformed_payload_raises:
  "shortlist_candidate (env_reply ''[1, 2]'') None (db_with rows_ba) ''J1'' ''b''
     = Inl AttributeError
   \<and> shortlist_candidate (env_reply ''null'') None (db_with rows_ba) ''J1'' ''b''
     = Inl AttributeError
   \<and> shortlist_candidate (env_reply score_text) None (db_with rows_ba) ''J1'' ''b''
     = Inl TypeError
   \<and> shortlist_candidate (env_reply ''not json'') None (db_with rows_ba) ''J1'' ''b''
     = Inr ((Fin (288 / 5), False), db_with rows_ab)"
proof -
  have arr: "evaluate_detailed_match (env_reply ''[1, 2]'') (db_with rows_ba) ''J1'' ''b''
             = JArr [JNum 1, JNum 2]"
    by (simp add: detailed_env_reply loads1_def)
  have nul: "evaluate_detailed_match (env_reply ''null'') (db_with rows_ba) ''J1'' ''b'' = JNull"
    by (simp add: detailed_env_reply loads1_def)
  have str: "evaluate_detailed_match (env_reply score_text) (db_with rows_ba) ''J1'' ''b''
             = JObj [(''overall_score'', JStr ''85'')]"
    by (simp add: detailed_env_reply loads1_def score_text_def)
  have plain: "evaluate_detailed_match (env_reply ''not json'') (db_with rows_ba) ''J1'' ''b''
             = zero_match"
    by (simp add: detailed_env_reply loads1_def score_text_def)
  have st: "store_ranking None rows_ba ''b'' ''J1'' (Fin (288 / 5)) False = rows_ab"
    by (simp add: store_ranking_def insert_or_replace_def select_rankings_def
        update_rank_def rows_ba_def rows_ab_def Let_def)
  have 1: "shortlist_candidate (env_reply ''[1, 2]'') None (db_with rows_ba) ''J1'' ''b''
           = Inl AttributeError"
    using arr by (rule shortlist_candidate_raises(1))
  have 2: "shortlist_candidate (env_reply ''null'') None (db_with rows_ba) ''J1'' ''b''
           = Inl AttributeError"
    by (simp add: shortlist_candidate_def Let_def nul get_overall_score_def)
  have 3: "shortlist_candidate (env_reply score_text) None (db_with rows_ba) ''J1'' ''b''
           = Inl TypeError"
    using str by (rule shortlist_candidate_raises(2))
  have 4: "shortlist_candidate (env_reply ''not json'') None (db_with rows_ba) ''J1'' ''b''
           = Inr ((Fin (288 / 5), False), db_with rows_ab)"
    by (subst default_breakdown_score [OF sem_env_reply plain])
       (simp add: st db_with_rankings rankings_db_with)
  from 1 2 3 4 show ?thesis by simp
qed

subsection \<open>A failing database\<close>

lemma shortlist_candidate_any_fault:
  assumes "shortlist_candidate e None db j r = Inr ((ms, flag), db1)"
  shows "shortlist_candidate e fault db j r
         = Inr ((ms, flag), db\<lparr>rankings := store_ranking fault (rankings db) r j ms flag\<rparr>)"
  using assms
  by (auto simp: shortlist_candidate_def Let_def split: sum.splits)

text \<open>
  C6, as the code has it: when a statement of the write raises, anywhere from \<open>connect\<close>
  to \<open>commit\<close>, \<open>shortlist_candidate\<close> returns exactly the pair a successful run returns,
  so the caller sees no failure, and the database is the one before the call: neither
  the new row nor any rank update is kept.
\<close>

theorem db_failure_swallowed:
  assumes "shortlist_candidate e None db j r = Inr (res, db1)"
    and "n \<le> 3 + length (filter (\<lambda>row. job_id row = j) (rankings db1))"
  shows "shortlist_candidate e (Some n) db j r = Inr (res, db)"
proof -
  obtain ms flag where res: "res = (ms, flag)" by (cases res)
  from assms(1) res shortlist_candidate_Inr [of e None db j r ms flag db1]
  have db1: "db1 = db\<lparr>rankings := store_ranking None (rankings db) r j ms flag\<rparr>" by simp
  have "store_ranking (Some n) (rankings db) r j ms flag = rankings db"
  proof (cases ms)
    case NaN
    then show ?thesis by (simp add: store_ranking_nan)
  next
    case (Fin x)
    with db1 have "rankings db1 = rerank (insert_or_replace (rankings db) r j x flag) j"
      by (simp add: store_ranking_no_fault)
    then have "length (filter (\<lambda>row. job_id row = j) (rankings db1))
               = length (select_rankings (insert_or_replace (rankings db) r j x flag) j)"
      by (simp add: filter_rerank length_select)
    with assms(2) Fin show ?thesis by (simp add: store_ranking_fault)
  qed
  with shortlist_candidate_any_fault [of e db j r ms flag db1 "Some n"] assms(1) res
  show ?thesis by simp
qed

text \<open>
  C6, witness: the second rank update raises (statement 4) after the insert and the first
  update have run; the call returns \<open>(93.6, True)\<close> and the table still holds only \<open>b\<close>.
\<close>

theorem db_failure_swallowed_witness:
  "shortlist_candidate env_ok None (db_with rows_b) ''J1'' ''a''
     = Inr ((Fin (468 / 5), True), db_with rows_ba)
   \<and> (4::nat) \<le> 3 + length (filter (\<lambda>row. job_id row = ''J1'') (rankings (db_with rows_ba)))
   \<and> shortlist_candidate env_ok (Some 4) (db_with rows_b) ''J1'' ''a''
     = Inr ((Fin (468 / 5), True), db_with rows_b)"
proof -
  have run: "shortlist_candidate env_ok None (db_with rows_b) ''J1'' ''a''
             = Inr ((Fin (468 / 5), True), db_with rows_ba)"
    by (simp add: run_a store_a)
  have n: "(4::nat) \<le> 3 + length (filter (\<lambda>row. job_id row = ''J1'') (rankings (db_with rows_ba)))"
    by (simp add: rankings_db_with rows_ba_def)
  from db_failure_swallowed [OF run n] run n show ?thesis by simp
qed

text \<open>
  C6, counterexample to the failure being surfaced: the insert raises (statement 1) and
  the call returns \<open>(93.6, True)\<close>, the very pair the successful run returns; only the
  database differs.
\<close>

theorem db_failure_not_surfaced_counterexample:
  "shortlist_candidate env_ok (Some 1) (db_with rows_b) ''J1'' ''a''
     = Inr ((Fin (468 / 5), True), db_with rows_b)
   \<and> shortlist_candidate env_ok None (db_with rows_b) ''J1'' ''a''
     = Inr ((Fin (468 / 5), True), db_with rows_ba)"
proof -
  have "store_ranking (Some 1) rows_b ''a'' ''J1'' (Fin (468 / 5)) True = rows_b"
    by (simp add: store_ranking_def)
  then show ?thesis by (simp only: run_a store_a simp_thms)
qed

subsection \<open>One row per pair\<close>

lemma distinct_insert_or_replace:
  assumes "distinct (map pair_key T)"
  shows "distinct (map pair_key (insert_or_replace T r j x flag))"
proof -
  have "distinct (map pair_key (filter (\<lambda>row. \<not> (resume_id row = r \<and> job_id row = j)) T))"
    using assms by (rule distinct_map_filter)
  moreover have "(r, j) \<notin> set (map pair_key (filter (\<lambda>row. \<not> (resume_id row = r \<and> job_id row = j)) T))"
    by (auto simp: pair_key_def)
  ultimately show ?thesis by (simp add: insert_or_replace_def pair_key_def)
qed

lemma distinct_store_ranking:
  assumes "distinct (map pair_key T)"
  shows "distinct (map pair_key (store_ranking fault T r j ms flag))"
proof (cases ms)
  case NaN
  with assms show ?thesis by (simp add: store_ranking_nan)
next
  case (Fin x)
  have "store_ranking fault T r j (Fin x) flag = T
        \<or> store_ranking fault T r j (Fin x) flag = rerank (insert_or_replace T r j x flag) j"
    by (cases fault) (simp_all add: store_ranking_no_fault store_ranking_fault)
  with assms distinct_insert_or_replace [OF assms, of r j x flag] Fin show ?thesis
    by (auto simp: rerank_keys)
qed

lemma distinct_shortlist_candidate:
  assumes "distinct (map pair_key (rankings db))"
    and "shortlist_candidate e fault db j r = Inr (res, db')"
  shows "distinct (map pair_key (rankings db'))"
proof -
  obtain ms flag where res: "res = (ms, flag)" by (cases res)
  from assms(2) res shortlist_candidate_Inr [of e fault db j r ms flag db']
  have "rankings db' = store_ranking fault (rankings db) r j ms flag" by simp
  with distinct_store_ranking [OF assms(1)] show ?thesis by simp
qed

lemma distinct_shortlist_all:
  "distinct (map pair_key (rankings db)) \<Longrightarrow> distinct (map pair_key (rankings (shortlist_all db calls)))"
proof (induction calls arbitrary: db)
  case Nil
  then show ?case by simp
next
  case (Cons c calls)
  obtain e fault j r where c: "c = (e, fault, j, r)" by (cases c)
  show ?case
  proof (cases "shortlist_candidate e fault db j r")
    case (Inl err)
    with c Cons show ?thesis by simp
  next
    case (Inr p)
    obtain res db' where p: "p = (res, db')" by (cases p)
    with Inr distinct_shortlist_candidate [OF Cons.prems] have "distinct (map pair_key (rankings db'))"
      by simp
    with c Inr p Cons.IH show ?thesis by simp
  qed
qed

text \<open>
  C9: a rankings table with at most one row per (profile, posting) pair keeps that
  property through every run of scoring requests, whatever the judge and the database
  do. A single successful write for a pair leaves exactly one row for it, the one with the
  new score and flag: the earlier row of the pair is gone.
\<close>

theorem rankings_pair_unique:
  assumes "distinct (map pair_key (rankings db))"
  shows "distinct (map pair_key (rankings (shortlist_all db calls)))
         \<and> (\<forall>res db'. shortlist_candidate e fault db j r = Inr (res, db') \<longrightarrow>
               distinct (map pair_key (rankings db'))
               \<and> (fault = None \<longrightarrow>
                    (\<forall>x. fst res = Fin x \<longrightarrow>
                       (\<exists>n. filter (\<lambda>row. pair_key row = (r, j)) (rankings db')
                             = [\<lparr>resume_id = r, job_id = j, match_score = x, rank = Some n,
                                 shortlisted = snd res\<rparr>]))))"
proof (intro conjI allI impI)
  show "distinct (map pair_key (rankings (shortlist_all db calls)))"
    using assms by (rule distinct_shortlist_all)
next
  fix res db' assume run: "shortlist_candidate e fault db j r = Inr (res, db')"
  with assms show "distinct (map pair_key (rankings db'))" by (rule distinct_shortlist_candidate)
  fix x assume "fault = None" and x: "fst res = Fin x"
  with run have "shortlist_candidate e None db j r = Inr ((Fin x, snd res), db')"
    by (cases res) simp
  from shortlist_candidate_Inr [OF this]
  have "rankings db' = store_ranking None (rankings db) r j (Fin x) (snd res)" by simp
  with stored_row [of r j "rankings db" x "snd res"]
  show "\<exists>n. filter (\<lambda>row. pair_key row = (r, j)) (rankings db')
             = [\<lparr>resume_id = r, job_id = j, match_score = x, rank = Some n, shortlisted = snd res\<rparr>]"
    by simp
qed

text \<open>
  C9, witness: profile \<open>b\<close>, stored with score \<open>93.6\<close>, is scored again at \<open>57.6\<close>; the
  table holds one row for \<open>b\<close>, with the new score.
\<close>

theorem rankings_pair_unique_witness:
  "distinct (map pair_key (rankings (db_with rows_ba)))
   \<and> shortlist_all (db_with rows_ba) [(env_down, None, ''J1'', ''b'')] = db_with rows_ab
   \<and> distinct (map pair_key (rankings (db_with rows_ab)))
   \<and> shortlist_candidate env_down None (db_with rows_ba) ''J1'' ''b''
       = Inr ((Fin (288 / 5), False), db_with rows_ab)
   \<and> (\<exists>n. filter (\<lambda>row. pair_key row = (''b'', ''J1'')) (rankings (db_with rows_ab))
           = [\<lparr>resume_id = ''b'', job_id = ''J1'', match_score = 288 / 5, rank = Some n,
               shortlisted = False\<rparr>])"
proof -
  have d: "distinct (map pair_key (rankings (db_with rows_ba)))"
    by (simp add: rankings_db_with rows_ba_def pair_key_def)
  have all: "shortlist_all (db_with rows_ba) [(env_down, None, ''J1'', ''b'')] = db_with rows_ab"
    by (simp add: run_b_again)
  from rankings_pair_unique [OF d, of "[(env_down, None, ''J1'', ''b'')]" env_down None "''J1''" "''b''"]
    all d run_b_again
  show ?thesis by simp
qed

subsection \<open>Ranks\<close>

text \<open>
  C3, as the code has it: after a successful write into a table with one row per pair,
  the ranks of the rows of the posting are a permutation of \<open>1..N\<close>, \<open>N\<close> being the number
  of those rows, and a row with a strictly higher score has a strictly smaller rank.
  Nothing is said about rows with equal scores: the query orders by score alone.
\<close>

theorem rank_recomputation:
  assumes "distinct (map pair_key (rankings db))"
    and "shortlist_candidate e None db j r = Inr ((Fin x, flag), db')"
  shows "mset (map rank (filter (\<lambda>row. job_id row = j) (rankings db')))
         = mset (map Some [1..<Suc (length (filter (\<lambda>row. job_id row = j) (rankings db')))])
         \<and> (\<forall>a \<in> set (rankings db'). \<forall>b \<in> set (rankings db').
               job_id a = j \<and> job_id b = j \<and> match_score b < match_score a
               \<longrightarrow> (\<exists>m n. rank a = Some m \<and> rank b = Some n \<and> m < n))"
proof -
  let ?W = "insert_or_replace (rankings db) r j x flag"
  from shortlist_candidate_Inr [OF assms(2)]
  have db': "rankings db' = rerank ?W j" by (simp add: store_ranking_no_fault)
  have dW: "distinct (map pair_key ?W)" using assms(1) by (rule distinct_insert_or_replace)
  have len: "length (filter (\<lambda>row. job_id row = j) (rerank ?W j))
             = length (filter (\<lambda>row. job_id row = j) ?W)"
    by (simp add: filter_rerank)
  have perm: "mset (map rank (filter (\<lambda>row. job_id row = j) (rankings db')))
         = mset (map Some [1..<Suc (length (filter (\<lambda>row. job_id row = j) (rankings db')))])"
    unfolding db' len by (rule rerank_permutation [OF dW])
  have ord: "\<exists>m n. rank a = Some m \<and> rank b = Some n \<and> m < n"
    if "a \<in> set (rankings db')" "b \<in> set (rankings db')"
       "job_id a = j \<and> job_id b = j \<and> match_score b < match_score a" for a b
    using that rerank_order [OF dW, of a j b] unfolding db' by blast
  from perm ord show ?thesis by blast
qed

text \<open>
  C3, witness: after \<open>b\<close> is scored again at \<open>57.6\<close>, profile \<open>a\<close> (score \<open>93.6\<close>) has rank 1
  and \<open>b\<close> has rank 2.
\<close>

theorem rank_recomputation_witness:
  "distinct (map pair_key (rankings (db_with rows_ba)))
   \<and> shortlist_candidate env_down None (db_with rows_ba) ''J1'' ''b''
       = Inr ((Fin (288 / 5), False), db_with rows_ab)
   \<and> mset (map rank (filter (\<lambda>row. job_id row = ''J1'') (rankings (db_with rows_ab))))
       = mset [Some 1, Some 2]
   \<and> map (\<lambda>row. (resume_id row, match_score row, rank row)) (rankings (db_with rows_ab))
       = [(''a'', 468 / 5, Some 1), (''b'', 288 / 5, Some 2)]
   \<and> (\<exists>m n. rank (rows_ab ! 0) = Some m \<and> rank (rows_ab ! 1) = Some n \<and> m < n)"
proof -
  have d: "distinct (map pair_key (rankings (db_with rows_ba)))"
    by (simp add: rankings_db_with rows_ba_def pair_key_def)
  have n: "[1..<Suc (length (filter (\<lambda>row. job_id row = ''J1'') (rankings (db_with rows_ab))))]
           = [1, 2]"
    by (simp add: rankings_db_with rows_ab_def upt_rec)
  have v: "map (\<lambda>row. (resume_id row, match_score row, rank row)) (rankings (db_with rows_ab))
       = [(''a'', 468 / 5, Some 1), (''b'', 288 / 5, Some 2)]"
    by (simp add: rankings_db_with rows_ab_def)
  from rank_recomputation [OF d run_b_again] have
    "mset (map rank (filter (\<lambda>row. job_id row = ''J1'') (rankings (db_with rows_ab))))
     = mset (map Some [1..<Suc (length (filter (\<lambda>row. job_id row = ''J1'') (rankings (db_with rows_ab))))])"
    by (rule conjunct1)
  then have "mset (map rank (filter (\<lambda>row. job_id row = ''J1'') (rankings (db_with rows_ab))))
       = mset [Some 1, Some 2]"
    unfolding n by simp
  moreover from rank_recomputation [OF d run_b_again] have
    "\<forall>a \<in> set (rankings (db_with rows_ab)). \<forall>b \<in> set (rankings (db_with rows_ab)).
        job_id a = ''J1'' \<and> job_id b = ''J1'' \<and> match_score b < match_score a
        \<longrightarrow> (\<exists>m n. rank a = Some m \<and> rank b = Some n \<and> m < n)"
    by (rule conjunct2)
  then have "\<exists>m n. rank (rows_ab ! 0) = Some m \<and> rank (rows_ab ! 1) = Some n \<and> m < n"
    by (simp add: rankings_db_with rows_ab_def)
  ultimately show ?thesis using d run_b_again v by simp
qed

text \<open>
  C3, counterexample to the tie-break by profile id: \<open>b\<close> is scored first and \<open>a\<close> second,
  both at \<open>93.6\<close>; \<open>b\<close> keeps rank 1 and \<open>a\<close> gets rank 2, although \<open>a\<close> is the smaller
  profile id.
\<close>

theorem rank_tie_counterexample:
  "shortlist_candidate env_ok None (db_with []) ''J1'' ''b''
     = Inr ((Fin (468 / 5), True), db_with rows_b)
   \<and> shortlist_candidate env_ok None (db_with rows_b) ''J1'' ''a''
     = Inr ((Fin (468 / 5), True), db_with rows_ba)
   \<and> map (\<lambda>row. (resume_id row, match_score row, rank row)) (rankings (db_with rows_ba))
     = [(''b'', 468 / 5, Some 1), (''a'', 468 / 5, Some 2)]"
proof -
  have "map (\<lambda>row. (resume_id row, match_score row, rank row)) (rankings (db_with rows_ba))
        = [(''b'', 468 / 5, Some 1), (''a'', 468 / 5, Some 2)]"
    by (simp add: rankings_db_with rows_ba_def)
  then show ?thesis by (simp only: run_b run_a store_a simp_thms)
qed

end
